theory Spec2Isabelle
  imports Complex_Main
begin

section \<open>Data model\<close>

text \<open>
  The repository is a PyTorch training driver: \<^verbatim>\<open>simclr.py\<close> (the module \<^verbatim>\<open>SimCLR\<close>
  with \<^verbatim>\<open>forward\<close>, \<^verbatim>\<open>save\<close>, \<^verbatim>\<open>load\<close>) and \<^verbatim>\<open>training.py\<close>
  (\<^verbatim>\<open>get_optimizer\<close>, \<^verbatim>\<open>train_one_epoch\<close>, \<^verbatim>\<open>validate_one_epoch\<close>, \<^verbatim>\<open>train\<close>,
  \<^verbatim>\<open>setup\<close>, \<^verbatim>\<open>main\<close>, \<^verbatim>\<open>parse_args\<close>).

  Conventions of the embedding.
  \<^item> A floating-point number is the real number it denotes, and every floating-point
    operation of the code rounds its exact result to the precision of its format
    (round to nearest, ties to even). The range of exponents is taken as unbounded:
    overflow to infinity and subnormal numbers are not modelled. The one non-number
    that the code can produce by itself, the \<^verbatim>\<open>nan\<close> of \<^verbatim>\<open>np.sqrt\<close> at a negative
    argument, is a value of its own. The entries of the parameter tensors are never
    computed with and are plain reals.
  \<^item> Python exceptions are values of the type \<open>error\<close>; a function that can raise
    returns \<open>error + 'a\<close>.
  \<^item> Objects that the code mutates in place (module instances) live in a store, the
    \<open>heap\<close> of the \<open>world\<close>; the files written by \<^verbatim>\<open>torch.save\<close>, the state of
    the process group and the log of the effects a process performs are the other
    components of the world.
  \<^item> The collaborators that the repository only calls (the layers of a module, the loss,
    the optimizer and the scheduler, the data loaders) are parameters.
\<close>

datatype error =
    UnboundLocalError string
  | AttributeError string
  | KeyError string
  | FileNotFoundError string
  | RuntimeError string
  | ZeroDivisionError
  | IndexError
  | ValueError
  | TypeError
  | SystemExit

datatype tensor = Tensor (shape: "nat list") (data: "real list")

text \<open>A state dict maps parameter names to tensors, in the order of registration.\<close>

type_synonym state_dict = "(string \<times> tensor) list"

text \<open>
  An instance of \<^verbatim>\<open>torch.nn.Module\<close>: its named parameters and what calling it computes
  from them (its layers, which the repository never looks into).
\<close>

record module =
  params :: state_dict
  call :: "state_dict \<Rightarrow> tensor \<Rightarrow> tensor"

text \<open>\<^verbatim>\<open>class SimCLR\<close>: the two attributes hold (the addresses of) module instances.\<close>

record simclr =
  encoder :: nat
  contrastive_head :: nat

text \<open>
  The model handed to the training functions is either the \<^verbatim>\<open>SimCLR\<close> module or the
  \<^verbatim>\<open>DistributedDataParallel\<close> wrapper around it (whose attribute \<^verbatim>\<open>module\<close> is the
  wrapped one).
\<close>

datatype model_obj = Plain simclr | DDP simclr

type_synonym checkpoint = "(string \<times> state_dict) list"

type_synonym batch = "tensor \<times> tensor"

datatype event =
    InitProcessGroup int int
  | DestroyProcessGroup
  | ManualSeed int
  | SetEpoch nat
  | OptimizerStep
  | AllReduce
  | Barrier
  | SchedulerStep
  | ValidateEpoch
  | Print
  | NewWriter string
  | MakeDirs string
  | AddScalar string real nat
  | TorchSave string

text \<open>
  The world of one process. \<open>ext\<close> is the state of the external objects (optimizer
  buffers, scheduler counter). \<open>process_group\<close> is \<open>None\<close> until
  \<^verbatim>\<open>dist.init_process_group\<close> has run and then holds the global rank.
  \<open>peer_values n\<close> lists what the other processes of the group contribute to the
  \<open>n\<close>-th all-reduce of this process; \<open>reduce_count\<close> counts the all-reduces done.
\<close>

record 'x world =
  heap :: "nat \<Rightarrow> module"
  ext :: 'x
  files :: "string \<rightharpoonup> checkpoint"
  process_group :: "int option"
  peer_values :: "nat \<Rightarrow> real list"
  reduce_count :: nat
  events :: "event list"

type_synonym ('a, 'x) prog = "'x world \<Rightarrow> (error + 'a) \<times> 'x world"

definition ret :: "'a \<Rightarrow> ('a, 'x) prog" where
  "ret v = (\<lambda>w. (Inr v, w))"

definition raise :: "error \<Rightarrow> ('a, 'x) prog" where
  "raise e = (\<lambda>w. (Inl e, w))"

definition bnd :: "('a, 'x) prog \<Rightarrow> ('a \<Rightarrow> ('b, 'x) prog) \<Rightarrow> ('b, 'x) prog" where
  "bnd m f = (\<lambda>w. case m w of (Inl e, w') \<Rightarrow> (Inl e, w') | (Inr v, w') \<Rightarrow> f v w')"

definition emit :: "event \<Rightarrow> (unit, 'x) prog" where
  "emit ev = (\<lambda>w. (Inr (), w\<lparr>events := events w @ [ev]\<rparr>))"

definition lift :: "error + 'a \<Rightarrow> ('a, 'x) prog" where
  "lift r = (\<lambda>w. (r, w))"

section \<open>simclr.py\<close>

text \<open>
  \<^verbatim>\<open>SimCLR.forward\<close>: the encoder on each view, then the head on each encoding.
\<close>

definition apply_module :: "(nat \<Rightarrow> module) \<Rightarrow> nat \<Rightarrow> tensor \<Rightarrow> tensor" where
  "apply_module hp r x = call (hp r) (params (hp r)) x"

definition forward :: "simclr \<Rightarrow> (nat \<Rightarrow> module) \<Rightarrow> tensor \<Rightarrow> tensor \<Rightarrow> tensor \<times> tensor" where
  "forward self hp x1 x2 =
     (let h1 = apply_module hp (encoder self) x1;
          h2 = apply_module hp (encoder self) x2;
          z1 = apply_module hp (contrastive_head self) h1;
          z2 = apply_module hp (contrastive_head self) h2
      in (z1, z2))"

text \<open>Calling the model: the wrapper forwards to the wrapped module.\<close>

fun call_model :: "model_obj \<Rightarrow> (nat \<Rightarrow> module) \<Rightarrow> tensor \<Rightarrow> tensor \<Rightarrow> tensor \<times> tensor" where
  "call_model (Plain m) hp x1 x2 = forward m hp x1 x2"
| "call_model (DDP m) hp x1 x2 = forward m hp x1 x2"

section \<open>Floating point\<close>

text \<open>Powers of two with an integer exponent.\<close>

definition pow2 :: "int \<Rightarrow> real" where
  "pow2 k = (if 0 \<le> k then 2 ^ nat k else 1 / 2 ^ nat (- k))"

text \<open>The nearest integer, a tie going to the even one.\<close>

definition round_half_even :: "real \<Rightarrow> int" where
  "round_half_even x =
     (let f = \<lfloor>x\<rfloor>; d = x - of_int f
      in if d < 1 / 2 then f
         else if 1 / 2 < d then f + 1
         else if even f then f else f + 1)"

text \<open>
  Rounding to \<open>p\<close> significant bits: with \<open>2\<^sup>e \<le> |x| < 2\<^sup>e\<^sup>+\<^sup>1\<close>, the multiple of
  \<open>2\<^sup>e\<^sup>-\<^sup>p\<^sup>+\<^sup>1\<close> nearest to \<open>x\<close>.
\<close>

definition fround :: "nat \<Rightarrow> real \<Rightarrow> real" where
  "fround p x =
     (if x = 0 then 0
      else let e = \<lfloor>log 2 \<bar>x\<bar>\<rfloor>;
               ulp = pow2 (e - int p + 1)
           in ulp * of_int (round_half_even (x / ulp)))"


text \<open>The floating-point types of a tensor, with their numbers of significant bits.\<close>

datatype dtype = Float16 | BFloat16 | Float32 | Float64

fun precision :: "dtype \<Rightarrow> nat" where
  "precision Float16 = 11"
| "precision BFloat16 = 8"
| "precision Float32 = 24"
| "precision Float64 = 53"

definition cast :: "dtype \<Rightarrow> real \<Rightarrow> real" where
  "cast d x = fround (precision d) x"

text \<open>A Python float is a binary64 number; its arithmetic rounds to 53 bits.\<close>

definition py_float :: "real \<Rightarrow> real" where
  "py_float x = fround 53 x"

definition py_add :: "real \<Rightarrow> real \<Rightarrow> real" where
  "py_add a b = py_float (a + b)"

text \<open>Python's \<^verbatim>\<open>/\<close> on floats raises at a zero divisor.\<close>

definition truediv :: "real \<Rightarrow> real \<Rightarrow> error + real" where
  "truediv a b = (if b = 0 then Inl ZeroDivisionError else Inr (py_float (a / b)))"

text \<open>
  The accumulation \<^verbatim>\<open>s = 0.\<close>, then \<^verbatim>\<open>s += x\<close> for each \<open>x\<close> in order.
\<close>

definition float_sum :: "real list \<Rightarrow> real" where
  "float_sum xs = foldl py_add 0 xs"

text \<open>
  A tensor of one number, such as a loss: its type and its value, which \<^verbatim>\<open>.item()\<close>
  returns as a Python float. \<^verbatim>\<open>torch.tensor(x, dtype=d)\<close> rounds \<open>x\<close> to the type.
\<close>

datatype scalar = Scalar (dtype_of: dtype) (item: real)

definition torch_tensor :: "real \<Rightarrow> dtype \<Rightarrow> scalar" where
  "torch_tensor x d = Scalar d (cast d x)"

section \<open>training.py: one epoch\<close>

text \<open>
  The optimizer as \<^verbatim>\<open>train_one_epoch\<close> uses it: \<open>opt_step batch\<close> is the joint effect of
  \<^verbatim>\<open>optimizer.zero_grad()\<close>, \<^verbatim>\<open>loss.backward()\<close> and \<^verbatim>\<open>optimizer.step()\<close> for the
  loss of that batch on the parameters (in the heap) and on the optimizer's own state;
  \<open>param_lr\<close> reads \<^verbatim>\<open>optimizer.param_groups[0]['lr']\<close>.
\<close>

record 'x optimizer =
  opt_step :: "batch \<Rightarrow> (nat \<Rightarrow> module) \<times> 'x \<Rightarrow> (nat \<Rightarrow> module) \<times> 'x"
  param_lr :: "'x \<Rightarrow> real"

text \<open>
  The local variables of \<^verbatim>\<open>train_one_epoch\<close> that outlive the loop. \<^verbatim>\<open>step\<close> and
  \<^verbatim>\<open>loss\<close> are bound by the loop body only: \<open>None\<close> is the unbound name.
\<close>

record loop_vars =
  running_average_loss :: real
  step :: "nat option"
  loss :: "scalar option"

text \<open>
  \<^verbatim>\<open>for step, batch in enumerate(train_dataloader)\<close>, lines 106 to 127; the third
  argument is the index that \<^verbatim>\<open>enumerate\<close> gives to the next batch. The criterion
  returns the loss tensor.
\<close>

fun train_batches ::
  "model_obj \<Rightarrow> (tensor \<Rightarrow> tensor \<Rightarrow> scalar) \<Rightarrow> 'x optimizer \<Rightarrow> nat \<Rightarrow> batch list \<Rightarrow>
   loop_vars \<Rightarrow> 'x world \<Rightarrow> loop_vars \<times> 'x world" where
  "train_batches model criterion optimizer i [] vars w = (vars, w)"
| "train_batches model criterion optimizer i (batch # rest) vars w =
     (let (x1, x2) = batch;
          (h1, h2) = call_model model (heap w) x1 x2;
          l = criterion h1 h2;
          (hp, ex) = opt_step optimizer batch (heap w, ext w);
          w' = w\<lparr>heap := hp, ext := ex, events := events w @ [OptimizerStep]\<rparr>
      in train_batches model criterion optimizer (Suc i) rest
           \<lparr>running_average_loss = py_add (running_average_loss vars) (item l),
            step = Some i, loss = Some l\<rparr> w')"

text \<open>
  \<^verbatim>\<open>dist.all_reduce(t, op=ReduceOp.AVG)\<close>: every process of the group contributes its
  tensor and receives, in place, the average of all contributions. How the library
  orders and rounds its partial sums is not the repository's; the contract taken here is
  the average rounded once to the type of the tensor. Without a process group the call
  raises \<^verbatim>\<open>ValueError\<close>. A peer that never joins the collective (a stall) is outside
  the model.
\<close>

definition all_reduce_AVG :: "scalar \<Rightarrow> (scalar, 'x) prog" where
  "all_reduce_AVG t = (\<lambda>w.
     case process_group w of
       None \<Rightarrow> (Inl ValueError, w)
     | Some rank \<Rightarrow>
         (let others = peer_values w (reduce_count w)
          in (Inr (torch_tensor ((item t + sum_list others) / real (Suc (length others)))
                     (dtype_of t)),
              w\<lparr>reduce_count := Suc (reduce_count w), events := events w @ [AllReduce]\<rparr>)))"

text \<open>\<^verbatim>\<open>train_one_epoch\<close>; lines 130 to 141 after the loop.\<close>

definition train_one_epoch ::
  "model_obj \<Rightarrow> batch list \<Rightarrow> (tensor \<Rightarrow> tensor \<Rightarrow> scalar) \<Rightarrow> 'x optimizer \<Rightarrow> int \<Rightarrow> bool \<Rightarrow>
   (real, 'x) prog" where
  "train_one_epoch model train_dataloader criterion optimizer local_rank distributed = (\<lambda>w.
     let (vars, w1) = train_batches model criterion optimizer 0 train_dataloader
                        \<lparr>running_average_loss = 0, step = None, loss = None\<rparr> w
     in case step vars of
          None \<Rightarrow> (Inl (UnboundLocalError ''step''), w1)
        | Some s \<Rightarrow>
            (case truediv (running_average_loss vars) (real (s + 1)) of
               Inl e \<Rightarrow> (Inl e, w1)
             | Inr avg \<Rightarrow>
                 (case loss vars of
                    None \<Rightarrow> (Inl (UnboundLocalError ''loss''), w1)
                  | Some l \<Rightarrow>
                      bnd (if distributed
                           then all_reduce_AVG (torch_tensor avg (dtype_of l))
                           else ret (torch_tensor avg (dtype_of l)))
                        (\<lambda>t. ret (item t)) w1)))"

text \<open>
  The per-batch losses of an epoch, \<open>l\<^sub>0, \<dots>, l\<^sub>k\<close>: the loss of each batch under the
  parameters left by the optimizer steps of the batches before it.
\<close>

fun batch_losses ::
  "model_obj \<Rightarrow> (tensor \<Rightarrow> tensor \<Rightarrow> scalar) \<Rightarrow> 'x optimizer \<Rightarrow> batch list \<Rightarrow>
   (nat \<Rightarrow> module) \<times> 'x \<Rightarrow> scalar list" where
  "batch_losses model criterion optimizer [] s = []"
| "batch_losses model criterion optimizer (batch # rest) s =
     (case call_model model (fst s) (fst batch) (snd batch) of
        (h1, h2) \<Rightarrow> criterion h1 h2 # batch_losses model criterion optimizer rest
                                        (opt_step optimizer batch s))"

section \<open>training.py: the checkpoint path\<close>

text \<open>
  \<^verbatim>\<open>s.rsplit(sep, 1)\<close> for a one-character separator: the text before the last
  separator and the text after it, or the string alone when it holds no separator.
\<close>

definition rsplit1 :: "char \<Rightarrow> string \<Rightarrow> string list" where
  "rsplit1 sep s =
     (if sep \<in> set s
      then [rev (tl (dropWhile (\<lambda>c. c \<noteq> sep) (rev s))), rev (takeWhile (\<lambda>c. c \<noteq> sep) (rev s))]
      else [s])"

text \<open>The decimal text of a non-negative integer, as an f-string renders it.\<close>

definition digit_char :: "nat \<Rightarrow> char" where
  "digit_char d = ''0123456789'' ! d"

fun str_nat :: "nat \<Rightarrow> string" where
  "str_nat n = (if n < 10 then [digit_char n] else str_nat (n div 10) @ [digit_char (n mod 10)])"

declare str_nat.simps [simp del]

text \<open>
  Lines 280 to 282 of \<^verbatim>\<open>train\<close>. Unpacking the result of \<^verbatim>\<open>rsplit\<close> into two names
  raises \<^verbatim>\<open>ValueError\<close> when the log directory holds no \<^verbatim>\<open>/\<close>.
\<close>

definition checkpoint_path :: "string \<Rightarrow> nat \<Rightarrow> error + string" where
  "checkpoint_path log_dir epoch =
     (case rsplit1 CHR ''/'' log_dir of
        [outer_folder, inner_folder] \<Rightarrow>
          (let path = outer_folder @ ''_models/'' @ inner_folder;
               path = path @ ''/epoch_'' @ str_nat (epoch + 1) @ ''.pth''
           in Inr path)
      | _ \<Rightarrow> Inl ValueError)"

section \<open>simclr.py: save and load\<close>

text \<open>
  A Python float: the real number it denotes, or \<^verbatim>\<open>nan\<close> (infinities and rounding are
  not modelled).
\<close>

datatype pyfloat = Float real | NaN

text \<open>
  The values that reach the dynamically typed parts of the code (the attributes of the
  argument namespace, the arguments of \<^verbatim>\<open>SimCLR.load\<close>): \<^verbatim>\<open>None\<close>, strings, integers,
  floats, and references to module instances.
\<close>

datatype pyval = VNone | VStr string | VInt int | VFloat pyfloat | VModule nat

text \<open>
  \<^verbatim>\<open>torch.save(state, path)\<close> writes the file (main creates the target directory
  beforehand; a failing write is not modelled). \<^verbatim>\<open>torch.load(path)\<close> reads it back:
  a missing file raises \<^verbatim>\<open>FileNotFoundError\<close>, and a path that is neither a string nor
  a file object is rejected when the loader asks it for \<^verbatim>\<open>seek\<close>. The serialization
  itself belongs to the library and is the identity here.
\<close>

definition torch_save :: "checkpoint \<Rightarrow> string \<Rightarrow> (unit, 'x) prog" where
  "torch_save state path =
     (\<lambda>w. (Inr (), w\<lparr>files := (files w)(path \<mapsto> state), events := events w @ [TorchSave path]\<rparr>))"

definition torch_load :: "pyval \<Rightarrow> (checkpoint, 'x) prog" where
  "torch_load path = (\<lambda>w.
     case path of
       VStr p \<Rightarrow> (case files w p of
                    None \<Rightarrow> (Inl (FileNotFoundError p), w)
                  | Some state \<Rightarrow> (Inr state, w))
     | _ \<Rightarrow> (Inl (AttributeError ''seek''), w))"

text \<open>\<^verbatim>\<open>checkpoint[key]\<close>.\<close>

definition getitem :: "('k \<times> 'v) list \<Rightarrow> 'k \<Rightarrow> ('k \<Rightarrow> error) \<Rightarrow> error + 'v" where
  "getitem d key err = (case map_of d key of None \<Rightarrow> Inl (err key) | Some v \<Rightarrow> Inr v)"

text \<open>Looking a method of \<^verbatim>\<open>nn.Module\<close> up on a value: only a module has it.\<close>

definition module_method :: "pyval \<Rightarrow> string \<Rightarrow> error + nat" where
  "module_method v name = (case v of VModule r \<Rightarrow> Inr r | _ \<Rightarrow> Inl (AttributeError name))"

text \<open>\<^verbatim>\<open>module.state_dict()\<close>.\<close>

definition state_dict :: "module \<Rightarrow> state_dict" where
  "state_dict m = params m"

text \<open>
  \<^verbatim>\<open>module.load_state_dict(sd)\<close> of the library, with its default \<^verbatim>\<open>strict=True\<close>:
  every parameter of the module whose name is in \<open>sd\<close> with the same shape is
  overwritten; then, if a name of the module is missing from \<open>sd\<close>, a name of \<open>sd\<close> is
  unknown to the module, or a shape differs, \<^verbatim>\<open>RuntimeError\<close> is raised (after the
  parameters that did match were copied).
\<close>

definition copy_state :: "state_dict \<Rightarrow> state_dict \<Rightarrow> state_dict" where
  "copy_state sd own =
     map (\<lambda>(n, t). case map_of sd n of
                      Some t' \<Rightarrow> if shape t' = shape t then (n, t') else (n, t)
                    | None \<Rightarrow> (n, t)) own"

definition load_state_dict :: "nat \<Rightarrow> state_dict \<Rightarrow> (unit, 'x) prog" where
  "load_state_dict r sd = (\<lambda>w.
     let m = heap w r;
         missing_keys = filter (\<lambda>n. n \<notin> set (map fst sd)) (map fst (params m));
         unexpected_keys = filter (\<lambda>n. n \<notin> set (map fst (params m))) (map fst sd);
         size_mismatch = filter (\<lambda>(n, t). case map_of sd n of
                                             Some t' \<Rightarrow> shape t' \<noteq> shape t
                                           | None \<Rightarrow> False) (params m);
         w' = w\<lparr>heap := (heap w)(r := m\<lparr>params := copy_state sd (params m)\<rparr>)\<rparr>
     in if missing_keys = [] \<and> unexpected_keys = [] \<and> size_mismatch = []
        then (Inr (), w')
        else (Inl (RuntimeError ''Error(s) in loading state_dict''), w'))"

text \<open>\<^verbatim>\<open>SimCLR.save\<close>, lines 76 to 78.\<close>

definition save :: "simclr \<Rightarrow> string \<Rightarrow> (unit, 'x) prog" where
  "save self path = (\<lambda>w.
     let state = [(''encoder'', state_dict (heap w (encoder self))),
                  (''head'', state_dict (heap w (contrastive_head self)))]
     in torch_save state path w)"

text \<open>
  The constructor \<^verbatim>\<open>SimCLR(encoder, contrastive_head)\<close>. The attributes of the record
  are module references; a value of another kind is refused here (in Python it would be
  stored and fail at its first use).
\<close>

definition SimCLR :: "pyval \<Rightarrow> pyval \<Rightarrow> error + simclr" where
  "SimCLR encoder_arch head_arch =
     (case (encoder_arch, head_arch) of
        (VModule e, VModule h) \<Rightarrow> Inr \<lparr>encoder = e, contrastive_head = h\<rparr>
      | _ \<Rightarrow> Inl TypeError)"

text \<open>
  \<^verbatim>\<open>SimCLR.load\<close>, lines 107 to 111. In \<^verbatim>\<open>a.load_state_dict(checkpoint['encoder'])\<close>
  Python looks the method up before it evaluates the argument. No exception is caught.
\<close>

definition load :: "pyval \<Rightarrow> pyval \<Rightarrow> pyval \<Rightarrow> pyval \<Rightarrow> (simclr, 'x) prog" where
  "load path encoder_arch head_arch map_location =
     bnd (torch_load path) (\<lambda>checkpoint.
     bnd (lift (module_method encoder_arch ''load_state_dict'')) (\<lambda>e.
     bnd (lift (getitem checkpoint ''encoder'' KeyError)) (\<lambda>encoder_state.
     bnd (load_state_dict e encoder_state) (\<lambda>_.
     bnd (lift (module_method head_arch ''load_state_dict'')) (\<lambda>h.
     bnd (lift (getitem checkpoint ''head'' KeyError)) (\<lambda>head_state.
     bnd (load_state_dict h head_state) (\<lambda>_.
     lift (SimCLR encoder_arch head_arch))))))))"

text \<open>
  What the specification calls a match between a state dict and a module instance: the
  same parameter names, and for every name the same shape.
\<close>

definition state_matches :: "module \<Rightarrow> state_dict \<Rightarrow> bool" where
  "state_matches m sd \<longleftrightarrow>
     set (map fst sd) = set (map fst (params m))
     \<and> (\<forall>(n, t) \<in> set (params m). \<forall>t'. map_of sd n = Some t' \<longrightarrow> shape t' = shape t)"

text \<open>The architecture of a module instance: its parameter names with their shapes.\<close>

definition architecture :: "module \<Rightarrow> (string \<times> nat list) list" where
  "architecture m = map (\<lambda>(n, t). (n, shape t)) (params m)"

section \<open>training.py: validation and the training loop\<close>

text \<open>
  The loop of \<^verbatim>\<open>validate_one_epoch\<close>, lines 171 to 183: the variables \<^verbatim>\<open>val_loss\<close> and
  \<^verbatim>\<open>step\<close>; nothing is updated.
\<close>

fun validate_batches ::
  "model_obj \<Rightarrow> (tensor \<Rightarrow> tensor \<Rightarrow> scalar) \<Rightarrow> (nat \<Rightarrow> module) \<Rightarrow> nat \<Rightarrow> batch list \<Rightarrow>
   real \<times> nat option \<Rightarrow> real \<times> nat option" where
  "validate_batches model criterion hp i [] vars = vars"
| "validate_batches model criterion hp i (batch # rest) vars =
     (let (x1, x2) = batch;
          (h1, h2) = call_model model hp x1 x2;
          l = criterion h1 h2
      in validate_batches model criterion hp (Suc i) rest (py_add (fst vars) (item l), Some i))"

text \<open>\<^verbatim>\<open>validate_one_epoch\<close>; the event records that it was invoked.\<close>

definition validate_one_epoch ::
  "model_obj \<Rightarrow> batch list \<Rightarrow> (tensor \<Rightarrow> tensor \<Rightarrow> scalar) \<Rightarrow> int \<Rightarrow> (real, 'x) prog" where
  "validate_one_epoch model val_dataloader criterion local_rank =
     bnd (emit ValidateEpoch) (\<lambda>_ w.
       let (val_loss, step) = validate_batches model criterion (heap w) 0 val_dataloader (0, None)
       in case step of
            None \<Rightarrow> (Inl (UnboundLocalError ''step''), w)
          | Some s \<Rightarrow> (truediv val_loss (real (s + 1)), w))"

text \<open>
  The scheduler as \<^verbatim>\<open>train\<close> uses it: \<open>last_lr\<close> reads
  \<^verbatim>\<open>scheduler.get_last_lr()[0]\<close>, \<open>scheduler_step\<close> is \<^verbatim>\<open>scheduler.step()\<close>.
\<close>

record 'x scheduler =
  last_lr :: "'x \<Rightarrow> real"
  scheduler_step :: "'x \<Rightarrow> 'x"

text \<open>
  The writer is \<^verbatim>\<open>None\<close> or a \<^verbatim>\<open>SummaryWriter\<close>, of which the code uses the log
  directory and \<^verbatim>\<open>add_scalar\<close>. A method called on \<^verbatim>\<open>None\<close> raises
  \<^verbatim>\<open>AttributeError\<close>.
\<close>

definition add_scalar :: "string option \<Rightarrow> string \<Rightarrow> real \<Rightarrow> nat \<Rightarrow> (unit, 'x) prog" where
  "add_scalar writer tag scalar_value global_step =
     (case writer of
        None \<Rightarrow> raise (AttributeError ''add_scalar'')
      | Some dir \<Rightarrow> emit (AddScalar tag scalar_value global_step))"

definition writer_log_dir :: "string option \<Rightarrow> error + string" where
  "writer_log_dir writer =
     (case writer of None \<Rightarrow> Inl (AttributeError ''log_dir'') | Some dir \<Rightarrow> Inr dir)"

text \<open>
  Lines 283 to 286: \<^verbatim>\<open>model.module.save(path)\<close> needs the wrapper, \<^verbatim>\<open>model.save(path)\<close>
  the module itself.
\<close>

definition save_model :: "bool \<Rightarrow> model_obj \<Rightarrow> string \<Rightarrow> (unit, 'x) prog" where
  "save_model distributed model path =
     (if distributed
      then (case model of DDP m \<Rightarrow> save m path | Plain m \<Rightarrow> raise (AttributeError ''module''))
      else (case model of Plain m \<Rightarrow> save m path | DDP m \<Rightarrow> raise (AttributeError ''save'')))"

text \<open>
  Lines 265 to 286, the block under \<^verbatim>\<open>if rank == 0\<close>. \<^verbatim>\<open>val_loss\<close> is bound only when
  the validation ran: \<open>None\<close> is the unbound name.
\<close>

definition report_epoch ::
  "model_obj \<Rightarrow> bool \<Rightarrow> bool \<Rightarrow> string option \<Rightarrow> nat \<Rightarrow> real \<Rightarrow> real option \<Rightarrow> real \<Rightarrow>
   (unit, 'x) prog" where
  "report_epoch model distributed has_val writer epoch train_loss val_loss lr =
     bnd (if has_val
          then (case val_loss of
                  None \<Rightarrow> raise (UnboundLocalError ''val_loss'')
                | Some v \<Rightarrow> emit Print)
          else emit Print) (\<lambda>_.
     bnd (add_scalar writer ''Loss/train'' train_loss epoch) (\<lambda>_.
     bnd (if has_val
          then (case val_loss of
                  None \<Rightarrow> raise (UnboundLocalError ''val_loss'')
                | Some v \<Rightarrow> add_scalar writer ''Loss/validation'' v epoch)
          else ret ()) (\<lambda>_.
     bnd (add_scalar writer ''Misc/learning_rate'' lr epoch) (\<lambda>_.
     bnd (lift (writer_log_dir writer)) (\<lambda>log_dir.
     bnd (lift (checkpoint_path log_dir epoch)) (\<lambda>path.
     save_model distributed model path))))))"

text \<open>
  The body of \<^verbatim>\<open>for epoch in range(epochs)\<close>, lines 240 to 291. A data loader is given
  by the batches of each of its passes; both loaders are iterated once per epoch.
\<close>

definition train_epoch ::
  "model_obj \<Rightarrow> (nat \<Rightarrow> batch list) \<Rightarrow> (nat \<Rightarrow> batch list) option \<Rightarrow>
   (tensor \<Rightarrow> tensor \<Rightarrow> scalar) \<Rightarrow> 'x optimizer \<Rightarrow> 'x scheduler option \<Rightarrow> string option \<Rightarrow>
   unit option \<Rightarrow> int \<Rightarrow> bool \<Rightarrow> int \<Rightarrow> nat \<Rightarrow> (unit, 'x) prog" where
  "train_epoch model train_dataloader val_dataloader criterion optimizer scheduler writer
     sampler local_rank distributed rank epoch =
     bnd (if distributed
          then (case sampler of
                  None \<Rightarrow> raise (AttributeError ''set_epoch'')
                | Some _ \<Rightarrow> emit (SetEpoch epoch))
          else ret ()) (\<lambda>_.
     bnd (train_one_epoch model (train_dataloader epoch) criterion optimizer local_rank
            distributed) (\<lambda>train_loss.
     bnd (case scheduler of
            Some s \<Rightarrow> (\<lambda>w. (Inr (last_lr s (ext w)),
                             w\<lparr>ext := scheduler_step s (ext w),
                               events := events w @ [SchedulerStep]\<rparr>))
          | None \<Rightarrow> (\<lambda>w. (Inr (param_lr optimizer (ext w)), w))) (\<lambda>lr.
     bnd (case val_dataloader of
            Some loader \<Rightarrow>
              if rank = 0
              then bnd (validate_one_epoch model (loader epoch) criterion local_rank)
                     (\<lambda>v. ret (Some v))
              else ret None
          | None \<Rightarrow> ret None) (\<lambda>val_loss.
     bnd (if rank = 0
          then report_epoch model distributed (val_dataloader \<noteq> None) writer epoch
                 train_loss val_loss lr
          else ret ()) (\<lambda>_.
     if distributed then emit Barrier else ret ())))))"

text \<open>A \<^verbatim>\<open>for\<close> loop whose body can raise.\<close>

fun for_each :: "('a \<Rightarrow> (unit, 'x) prog) \<Rightarrow> 'a list \<Rightarrow> (unit, 'x) prog" where
  "for_each body [] w = (Inr (), w)"
| "for_each body (x # xs) w =
     (case body x w of
        (Inl e, w') \<Rightarrow> (Inl e, w')
      | (Inr u, w') \<Rightarrow> for_each body xs w')"

text \<open>
  \<^verbatim>\<open>train\<close>. \<^verbatim>\<open>dist.is_available() and dist.is_initialized()\<close> holds when the process
  group exists; \<^verbatim>\<open>range(epochs)\<close> is empty for a negative count.
\<close>

definition train ::
  "model_obj \<Rightarrow> int \<Rightarrow> (nat \<Rightarrow> batch list) \<Rightarrow> (nat \<Rightarrow> batch list) option \<Rightarrow>
   (tensor \<Rightarrow> tensor \<Rightarrow> scalar) \<Rightarrow> 'x optimizer \<Rightarrow> 'x scheduler option \<Rightarrow> string option \<Rightarrow>
   unit option \<Rightarrow> int \<Rightarrow> (unit, 'x) prog" where
  "train model epochs train_dataloader val_dataloader criterion optimizer scheduler writer
     sampler local_rank = (\<lambda>w.
     let (distributed, rank) = (case process_group w of
                                  Some r \<Rightarrow> (True, r)
                                | None \<Rightarrow> (False, 0))
     in for_each (train_epoch model train_dataloader val_dataloader criterion optimizer
                    scheduler writer sampler local_rank distributed rank)
          [0..<nat epochs] w)"

text \<open>
  The events that write below the log directory or the checkpoint directory, the
  events of a validation, and the paths of the checkpoints written.
\<close>

fun is_write :: "event \<Rightarrow> bool" where
  "is_write (NewWriter dir) = True"
| "is_write (MakeDirs dir) = True"
| "is_write (AddScalar tag v n) = True"
| "is_write (TorchSave path) = True"
| "is_write ev = False"

fun is_validation :: "event \<Rightarrow> bool" where
  "is_validation ValidateEpoch = True"
| "is_validation (AddScalar tag v n) = (tag = ''Loss/validation'')"
| "is_validation ev = False"

fun is_step :: "event \<Rightarrow> bool" where
  "is_step OptimizerStep = True"
| "is_step ev = False"

fun saved_paths :: "event list \<Rightarrow> string list" where
  "saved_paths [] = []"
| "saved_paths (TorchSave path # evs) = path # saved_paths evs"
| "saved_paths (ev # evs) = saved_paths evs"


text \<open>A program preserves a kind of event when it adds no event of that kind.\<close>

definition preserves :: "(event \<Rightarrow> bool) \<Rightarrow> ('a, 'x) prog \<Rightarrow> bool" where
  "preserves P m \<longleftrightarrow> (\<forall>w. filter P (events (snd (m w))) = filter P (events w))"


section \<open>training.py: parse_args\<close>

text \<open>Sequencing of computations that can raise but have no effect.\<close>

definition andthen :: "error + 'a \<Rightarrow> ('a \<Rightarrow> error + 'b) \<Rightarrow> error + 'b" where
  "andthen r f = (case r of Inl e \<Rightarrow> Inl e | Inr v \<Rightarrow> f v)"

text \<open>
  The namespace of \<^verbatim>\<open>argparse\<close>: attribute names to values. Reading an attribute
  that was never set raises \<^verbatim>\<open>AttributeError\<close>.
\<close>

type_synonym namespace = "string \<rightharpoonup> pyval"

definition getattr :: "namespace \<Rightarrow> string \<Rightarrow> error + pyval" where
  "getattr args name = (case args name of None \<Rightarrow> Inl (AttributeError name) | Some v \<Rightarrow> Inr v)"

text \<open>
  An attribute used as an integer, a string or a float. The attributes that
  \<^verbatim>\<open>parse_args\<close> defines have the type their \<^verbatim>\<open>add_argument\<close> gives them; a value of
  another type is reported as \<^verbatim>\<open>TypeError\<close> at its first use.
\<close>

definition as_int :: "pyval \<Rightarrow> error + int" where
  "as_int v = (case v of VInt i \<Rightarrow> Inr i | _ \<Rightarrow> Inl TypeError)"

definition as_str :: "pyval \<Rightarrow> error + string" where
  "as_str v = (case v of VStr s \<Rightarrow> Inr s | _ \<Rightarrow> Inl TypeError)"

definition int_attr :: "namespace \<Rightarrow> string \<Rightarrow> error + int" where
  "int_attr args name = andthen (getattr args name) as_int"

definition str_attr :: "namespace \<Rightarrow> string \<Rightarrow> error + string" where
  "str_attr args name = andthen (getattr args name) as_str"

text \<open>
  The command line as \<^verbatim>\<open>argparse\<close> has typed it: one field per \<^verbatim>\<open>add_argument\<close>,
  \<open>None\<close> for an option that was not given.
\<close>

record cli =
  cli_train_dataset :: "string option"
  cli_val_dataset :: "string option"
  cli_size :: "int option"
  cli_jitter :: "pyfloat option"
  cli_optimizer :: "string option"
  cli_lr :: "pyfloat option"
  cli_epochs :: "int option"
  cli_batch_size :: "int option"
  cli_temperature :: "pyfloat option"
  cli_weight_decay :: "pyfloat option"
  cli_momentum :: "pyfloat option"
  cli_nesterov :: "string option"
  cli_scheduler :: "string option"
  cli_nodes :: "int option"
  cli_node_index :: "int option"
  cli_gpus :: "int option"
  cli_workers :: "int option"
  cli_log_dir :: "string option"
  cli_master_address :: "string option"
  cli_master_port :: "string option"
  cli_seed :: "int option"

definition default :: "'a \<Rightarrow> 'a option \<Rightarrow> 'a" where
  "default d given = (case given of None \<Rightarrow> d | Some v \<Rightarrow> v)"

definition choice_ok :: "string list \<Rightarrow> string option \<Rightarrow> bool" where
  "choice_ok choices given = (case given of None \<Rightarrow> True | Some v \<Rightarrow> v \<in> set choices)"

text \<open>
  A float literal of the source, and a float given on the command line, is the binary64
  number nearest to the decimal written.
\<close>

definition float_literal :: "real \<Rightarrow> pyfloat" where
  "float_literal x = Float (py_float x)"

text \<open>
  The parser of lines 434 to 483: one attribute per \<^verbatim>\<open>add_argument\<close>, holding the
  value given or else the default of the argument.
\<close>

definition arguments :: "cli \<Rightarrow> string \<Rightarrow> string \<Rightarrow> (string \<times> pyval) list" where
  "arguments c train_dataset log_dir =
     [(''train_dataset'', VStr train_dataset),
      (''val_dataset'', VStr (default ''None'' (cli_val_dataset c))),
      (''size'', VInt (default 224 (cli_size c))),
      (''jitter'', VFloat (default (float_literal 1) (cli_jitter c))),
      (''optimizer'', VStr (default ''lars'' (cli_optimizer c))),
      (''lr'', VFloat (default (float_literal 0) (cli_lr c))),
      (''epochs'', VInt (default 100 (cli_epochs c))),
      (''batch_size'', VInt (default 32 (cli_batch_size c))),
      (''temperature'', VFloat (default (float_literal (1 / 10)) (cli_temperature c))),
      (''weight_decay'', VFloat (default (float_literal (1 / 1000000)) (cli_weight_decay c))),
      (''momentum'', VFloat (default (float_literal (9 / 10)) (cli_momentum c))),
      (''nesterov'', VStr (default ''False'' (cli_nesterov c))),
      (''scheduler'', VStr (default ''True'' (cli_scheduler c))),
      (''nodes'', VInt (default 1 (cli_nodes c))),
      (''node_index'', VInt (default 0 (cli_node_index c))),
      (''gpus'', VInt (default 8 (cli_gpus c))),
      (''workers'', VInt (default 8 (cli_workers c))),
      (''log_dir'', VStr log_dir),
      (''master_address'', VStr (default ''localhost'' (cli_master_address c))),
      (''master_port'', VStr (default ''12355'' (cli_master_port c))),
      (''seed'', VInt (default 123 (cli_seed c)))]"

text \<open>
  \<^verbatim>\<open>parser.parse_args()\<close>: it exits when a required argument is missing or a value
  given is not among the choices of its argument.
\<close>

definition parser_parse_args :: "cli \<Rightarrow> error + namespace" where
  "parser_parse_args c =
     (case (cli_train_dataset c, cli_log_dir c) of
        (Some train_dataset, Some log_dir) \<Rightarrow>
          if choice_ok [''lars'', ''adam''] (cli_optimizer c)
             \<and> choice_ok [''False'', ''True''] (cli_nesterov c)
             \<and> choice_ok [''False'', ''True''] (cli_scheduler c)
          then Inr (map_of (arguments c train_dataset log_dir))
          else Inl SystemExit
      | _ \<Rightarrow> Inl SystemExit)"

text \<open>
  \<^verbatim>\<open>np.sqrt\<close> of an integer converts it to binary64 and takes the correctly rounded
  square root; below zero the result is \<^verbatim>\<open>nan\<close>. A product of floats is rounded; a
  product with \<^verbatim>\<open>nan\<close> is \<^verbatim>\<open>nan\<close>; \<^verbatim>\<open>nan == 0\<close> is false.
\<close>

definition np_sqrt :: "int \<Rightarrow> pyfloat" where
  "np_sqrt n = (if n < 0 then NaN else Float (py_float (sqrt (py_float (real_of_int n)))))"

fun fmul :: "pyfloat \<Rightarrow> pyfloat \<Rightarrow> pyfloat" where
  "fmul (Float a) (Float b) = Float (py_float (a * b))"
| "fmul a b = NaN"

definition eq_zero :: "pyval \<Rightarrow> bool" where
  "eq_zero v = (v = VFloat (Float 0) \<or> v = VInt 0)"

text \<open>\<^verbatim>\<open>s[-1]\<close> raises \<^verbatim>\<open>IndexError\<close> on the empty string.\<close>

definition last_char :: "string \<Rightarrow> error + char" where
  "last_char s = (if s = [] then Inl IndexError else Inr (last s))"

text \<open>\<^verbatim>\<open>parse_args\<close>, lines 486 to 497.\<close>

definition parse_args :: "cli \<Rightarrow> error + namespace" where
  "parse_args c =
     andthen (parser_parse_args c) (\<lambda>args.
     andthen (int_attr args ''nodes'') (\<lambda>nodes.
     andthen (int_attr args ''gpus'') (\<lambda>gpus.
     let args = args(''world_size'' \<mapsto> VInt (nodes * gpus)) in
     andthen (str_attr args ''log_dir'') (\<lambda>log_dir.
     andthen (last_char log_dir) (\<lambda>c.
     let args = (if c = CHR ''/'' then args(''log_dir'' \<mapsto> VStr (butlast log_dir)) else args) in
     andthen (getattr args ''lr'') (\<lambda>lr.
     if eq_zero lr
     then andthen (int_attr args ''batch_size'') (\<lambda>batch_size.
          andthen (int_attr args ''world_size'') (\<lambda>world_size.
          Inr (args(''lr'' \<mapsto>
                 VFloat (fmul (float_literal (5 / 1000)) (np_sqrt (batch_size * world_size)))))))
     else Inr args))))))"

section \<open>training.py: get_optimizer, setup and main\<close>

type_synonym dataset = "(tensor \<times> tensor) list"

text \<open>
  The constructors of the collaborators, which main calls with attributes of the
  namespace and which may reject them: the two optimizers, the scheduler, the loss, the
  dataset, and the data loader (dataset, batch size, world size and rank of the
  distributed sampler if there is one, shuffle, number of workers, drop_last). The clock
  is \<^verbatim>\<open>datetime.now().strftime(format)\<close>.
\<close>

record 'x env =
  LARS :: "pyval \<Rightarrow> pyval \<Rightarrow> pyval \<Rightarrow> pyval \<Rightarrow> error + 'x optimizer"
  Adam :: "pyval \<Rightarrow> pyval \<Rightarrow> error + 'x optimizer"
  CosineAnnealingLR :: "'x optimizer \<Rightarrow> pyval \<Rightarrow> error + 'x scheduler"
  NT_Xent :: "pyval \<Rightarrow> error + (tensor \<Rightarrow> tensor \<Rightarrow> scalar)"
  ImageDataset :: "pyval \<Rightarrow> pyval \<Rightarrow> pyval \<Rightarrow> error + dataset"
  DataLoader ::
    "dataset \<Rightarrow> pyval \<Rightarrow> (int \<times> int) option \<Rightarrow> bool \<Rightarrow> pyval \<Rightarrow> bool \<Rightarrow>
     error + (nat \<Rightarrow> batch list)"
  strftime :: "string \<Rightarrow> string"

text \<open>
  \<^verbatim>\<open>get_optimizer\<close>, lines 61 to 73. With an optimizer name that is neither \<^verbatim>\<open>lars\<close>
  nor \<^verbatim>\<open>adam\<close> the variable still holds the string, which \<^verbatim>\<open>CosineAnnealingLR\<close>
  rejects with \<^verbatim>\<open>TypeError\<close>.
\<close>

definition get_optimizer ::
  "'x env \<Rightarrow> model_obj \<Rightarrow> pyval \<Rightarrow> pyval \<Rightarrow> pyval \<Rightarrow> pyval \<Rightarrow> pyval \<Rightarrow> pyval \<Rightarrow>
   error + 'x optimizer \<times> 'x scheduler" where
  "get_optimizer env model epochs optimizer learning_rate weight_decay momentum nesterov =
     andthen (if optimizer = VStr ''lars''
              then LARS env learning_rate momentum weight_decay nesterov
              else if optimizer = VStr ''adam''
              then Adam env learning_rate weight_decay
              else Inl TypeError) (\<lambda>optimizer.
     andthen (CosineAnnealingLR env optimizer epochs) (\<lambda>scheduler.
     Inr (optimizer, scheduler)))"

text \<open>
  \<^verbatim>\<open>setup\<close>, lines 313 to 317 (the name alone is reserved here). \<^verbatim>\<open>os.environ\<close> takes strings only. The rendezvous of
  \<^verbatim>\<open>init_process_group\<close> with the other processes is taken to succeed.
\<close>

definition setup_group :: "int \<Rightarrow> namespace \<Rightarrow> (unit, 'x) prog" where
  "setup_group rank args =
     bnd (lift (str_attr args ''master_address'')) (\<lambda>master_address.
     bnd (lift (str_attr args ''master_port'')) (\<lambda>master_port.
     bnd (lift (int_attr args ''world_size'')) (\<lambda>world_size w.
       (Inr (), w\<lparr>process_group := Some rank,
                  events := events w @ [InitProcessGroup rank world_size]\<rparr>))))"

text \<open>
  \<^verbatim>\<open>torch.manual_seed\<close> accepts the seeds from \<open>-2\<^sup>6\<^sup>3\<close> to \<open>2\<^sup>6\<^sup>4 - 1\<close>,
  \<^verbatim>\<open>np.random.seed\<close> those from \<open>0\<close> to \<open>2\<^sup>3\<^sup>2 - 1\<close>.
\<close>

definition torch_manual_seed :: "int \<Rightarrow> (unit, 'x) prog" where
  "torch_manual_seed seed =
     (if - (2 ^ 63) \<le> seed \<and> seed < 2 ^ 64
      then emit (ManualSeed seed)
      else raise (RuntimeError ''Overflow when unpacking long''))"

definition np_random_seed :: "int \<Rightarrow> error + unit" where
  "np_random_seed seed = (if 0 \<le> seed \<and> seed < 2 ^ 32 then Inr () else Inl ValueError)"

text \<open>What main hands to \<^verbatim>\<open>train\<close>, line 411.\<close>

record 'x train_args =
  arg_model :: model_obj
  arg_epochs :: int
  arg_train_dataloader :: "nat \<Rightarrow> batch list"
  arg_val_dataloader :: "(nat \<Rightarrow> batch list) option"
  arg_criterion :: "tensor \<Rightarrow> tensor \<Rightarrow> scalar"
  arg_optimizer :: "'x optimizer"
  arg_scheduler :: "'x scheduler option"
  arg_writer :: "string option"
  arg_sampler :: "unit option"

text \<open>
  Lines 395 to 404: the writer and the folder of the models, on rank 0 only.
\<close>

definition configure_writer :: "'x env \<Rightarrow> int \<Rightarrow> namespace \<Rightarrow> (string option, 'x) prog" where
  "configure_writer env rank args =
     (if rank = 0
      then (let timestamp = strftime env ''%Y-%m-%d_%H:%M:%S'' in
            bnd (lift (str_attr args ''log_dir'')) (\<lambda>folder.
            let log_dir = folder @ ''/'' @ timestamp in
            bnd (emit (NewWriter log_dir)) (\<lambda>_.
            bnd (emit (MakeDirs (folder @ ''_models/'' @ timestamp))) (\<lambda>_.
            ret (Some log_dir)))))
      else ret None)"

text \<open>
  Lines 371 to 393: the datasets and the data loaders. The validation dataset and its
  loader exist only when \<^verbatim>\<open>args.val_dataset\<close> is not the string \<^verbatim>\<open>None\<close>.
\<close>

definition make_dataloaders ::
  "'x env \<Rightarrow> int \<Rightarrow> int \<Rightarrow> namespace \<Rightarrow>
   error + (nat \<Rightarrow> batch list) \<times> (nat \<Rightarrow> batch list) option \<times> unit option" where
  "make_dataloaders env rank world_size args =
     andthen (getattr args ''train_dataset'') (\<lambda>train_path.
     andthen (getattr args ''size'') (\<lambda>size.
     andthen (getattr args ''jitter'') (\<lambda>jitter.
     andthen (ImageDataset env train_path size jitter) (\<lambda>train_dataset.
     andthen (getattr args ''val_dataset'') (\<lambda>val_path.
     andthen (if val_path \<noteq> VStr ''None''
              then andthen (ImageDataset env val_path size jitter) (\<lambda>d. Inr (Some d))
              else Inr None) (\<lambda>val_dataset.
     andthen (getattr args ''batch_size'') (\<lambda>batch_size.
     andthen (getattr args ''workers'') (\<lambda>workers.
     andthen (if world_size > 1
              then andthen (DataLoader env train_dataset batch_size (Some (world_size, rank))
                              False workers True) (\<lambda>l. Inr (l, Some ()))
              else andthen (DataLoader env train_dataset batch_size None True workers True)
                     (\<lambda>l. Inr (l, None))) (\<lambda>(train_dataloader, train_sampler).
     andthen (if val_path \<noteq> VStr ''None''
              then (case val_dataset of
                      None \<Rightarrow> Inl (UnboundLocalError ''val_dataset'')
                    | Some d \<Rightarrow> andthen (DataLoader env d batch_size None False workers False)
                                  (\<lambda>l. Inr (Some l)))
              else Inr None) (\<lambda>val_dataloader.
     Inr (train_dataloader, val_dataloader, train_sampler)))))))))))"

text \<open>
  Lines 341 to 408 of main: everything before the call of \<^verbatim>\<open>train\<close>. The result also
  carries the global rank and the world size, which the lines after the call use.
\<close>

definition main_objects ::
  "'x env \<Rightarrow> int \<Rightarrow> namespace \<Rightarrow> ('x train_args \<times> int \<times> int, 'x) prog" where
  "main_objects env local_rank args =
     bnd (lift (int_attr args ''node_index'')) (\<lambda>node_index.
     bnd (lift (int_attr args ''gpus'')) (\<lambda>gpus.
     let rank = node_index * gpus + local_rank in
     bnd (lift (int_attr args ''world_size'')) (\<lambda>world_size.
     bnd (if world_size > 1 then setup_group rank args else ret ()) (\<lambda>_.
     bnd (lift (int_attr args ''seed'')) (\<lambda>seed.
     bnd (torch_manual_seed seed) (\<lambda>_.
     bnd (lift (np_random_seed seed)) (\<lambda>_.
     bnd (lift (getattr args ''model'')) (\<lambda>model_name.
     let path = (if model_name = VStr ''original'' then VNone else model_name) in
     bnd (lift (getattr args ''arch_depth'')) (\<lambda>arch_depth.
     bnd (lift (getattr args ''arch_width'')) (\<lambda>arch_width.
     bnd (lift (getattr args ''arch_sk'')) (\<lambda>arch_sk.
     bnd (load path arch_depth arch_width arch_sk) (\<lambda>loaded.
     let model = (if world_size > 1 then DDP loaded else Plain loaded) in
     bnd (lift (getattr args ''epochs'')) (\<lambda>epochs.
     bnd (lift (getattr args ''optimizer'')) (\<lambda>optimizer_name.
     bnd (lift (getattr args ''lr'')) (\<lambda>lr.
     bnd (lift (getattr args ''weight_decay'')) (\<lambda>weight_decay.
     bnd (lift (getattr args ''momentum'')) (\<lambda>momentum.
     bnd (lift (getattr args ''nesterov'')) (\<lambda>nesterov.
     bnd (lift (get_optimizer env model epochs optimizer_name lr weight_decay momentum
                  nesterov)) (\<lambda>(optimizer, scheduler).
     bnd (lift (getattr args ''scheduler'')) (\<lambda>use_scheduler.
     let scheduler = (if use_scheduler = VStr ''False'' then None else Some scheduler) in
     bnd (lift (getattr args ''temperature'')) (\<lambda>temperature.
     bnd (lift (NT_Xent env temperature)) (\<lambda>criterion.
     bnd (lift (make_dataloaders env rank world_size args))
       (\<lambda>(train_dataloader, val_dataloader, train_sampler).
     bnd (configure_writer env rank args) (\<lambda>writer.
     bnd (if rank = 0 then emit Print else ret ()) (\<lambda>_.
     bnd (lift (as_int epochs)) (\<lambda>epoch_count.
     ret (\<lparr>arg_model = model, arg_epochs = epoch_count,
            arg_train_dataloader = train_dataloader, arg_val_dataloader = val_dataloader,
            arg_criterion = criterion, arg_optimizer = optimizer, arg_scheduler = scheduler,
            arg_writer = writer, arg_sampler = train_sampler\<rparr>,
          rank, world_size)))))))))))))))))))))))))))"

text \<open>\<^verbatim>\<open>main\<close>: the objects, the training (line 411), and lines 414 to 419.\<close>

definition main :: "'x env \<Rightarrow> int \<Rightarrow> namespace \<Rightarrow> (unit, 'x) prog" where
  "main env local_rank args =
     bnd (main_objects env local_rank args) (\<lambda>(a, rank, world_size).
     bnd (train (arg_model a) (arg_epochs a) (arg_train_dataloader a) (arg_val_dataloader a)
            (arg_criterion a) (arg_optimizer a) (arg_scheduler a) (arg_writer a)
            (arg_sampler a) local_rank) (\<lambda>_.
     bnd (if rank = 0 then emit Print else ret ()) (\<lambda>_.
     if world_size > 1
     then (\<lambda>w. (Inr (), w\<lparr>process_group := None,
                            events := events w @ [DestroyProcessGroup]\<rparr>))
     else ret ())))"

section \<open>Fixtures\<close>

text \<open>
  Concrete objects on which the theorems below are exercised: a module with one parameter
  that returns its input, a float32 loss that adds up the entries of both projections, an
  optimizer that leaves the parameters alone, a loader with a batch of one sample and a
  batch of three (losses 3 and 21), and a loader of three batches with the losses 1, 0
  and 0.
\<close>

definition fixture_module :: module where
  "fixture_module = \<lparr>params = [(''weight'', Tensor [1] [2])], call = (\<lambda>sd x. x)\<rparr>"

definition fixture_world :: "unit world" where
  "fixture_world = \<lparr>heap = (\<lambda>r. fixture_module), ext = (), files = Map.empty,
     process_group = None, peer_values = (\<lambda>n. []), reduce_count = 0, events = []\<rparr>"

definition fixture_model :: model_obj where
  "fixture_model = Plain \<lparr>encoder = 0, contrastive_head = 1\<rparr>"

definition fixture_criterion :: "tensor \<Rightarrow> tensor \<Rightarrow> scalar" where
  "fixture_criterion h1 h2 = Scalar Float32 (sum_list (data h1) + sum_list (data h2))"

definition fixture_optimizer :: "unit optimizer" where
  "fixture_optimizer = \<lparr>opt_step = (\<lambda>b s. s), param_lr = (\<lambda>x. 1)\<rparr>"

definition fixture_loader :: "batch list" where
  "fixture_loader =
     [(Tensor [1, 1] [1], Tensor [1, 1] [2]),
      (Tensor [3, 1] [1, 2, 3], Tensor [3, 1] [4, 5, 6])]"



text \<open>
  A store with a trained encoder (address 2) and head (address 3), and fresh instances of
  the same two architectures (addresses 4 and 5) whose parameters are still zero.
\<close>

definition fixture_store :: "nat \<Rightarrow> module" where
  "fixture_store =
     (\<lambda>r. fixture_module)
       (2 := \<lparr>params = [(''conv.weight'', Tensor [2] [1, 2]), (''conv.bias'', Tensor [1] [3])],
               call = (\<lambda>sd x. x)\<rparr>,
        3 := \<lparr>params = [(''fc.weight'', Tensor [1] [4])], call = (\<lambda>sd x. x)\<rparr>,
        4 := \<lparr>params = [(''conv.weight'', Tensor [2] [0, 0]), (''conv.bias'', Tensor [1] [0])],
               call = (\<lambda>sd x. x)\<rparr>,
        5 := \<lparr>params = [(''fc.weight'', Tensor [1] [0])], call = (\<lambda>sd x. x)\<rparr>)"

definition fixture_io_world :: "unit world" where
  "fixture_io_world = fixture_world\<lparr>heap := fixture_store\<rparr>"

definition fixture_simclr :: simclr where
  "fixture_simclr = \<lparr>encoder = 2, contrastive_head = 3\<rparr>"

text \<open>
  A command line that gives the two required arguments only, and an environment whose
  constructors accept everything: the optimizer and loss fixtures, a scheduler with a
  constant rate, and loaders that serve the fixture batches in every epoch.
\<close>

definition fixture_cli :: cli where
  "fixture_cli = \<lparr>cli_train_dataset = Some ''data/train'', cli_val_dataset = None,
     cli_size = None, cli_jitter = None, cli_optimizer = None, cli_lr = None,
     cli_epochs = None, cli_batch_size = None, cli_temperature = None,
     cli_weight_decay = None, cli_momentum = None, cli_nesterov = None,
     cli_scheduler = None, cli_nodes = None, cli_node_index = None, cli_gpus = None,
     cli_workers = None, cli_log_dir = Some ''runs/'', cli_master_address = None,
     cli_master_port = None, cli_seed = None\<rparr>"

definition fixture_scheduler :: "unit scheduler" where
  "fixture_scheduler = \<lparr>last_lr = (\<lambda>x. 1), scheduler_step = (\<lambda>x. x)\<rparr>"

definition fixture_env :: "unit env" where
  "fixture_env = \<lparr>
     LARS = (\<lambda>lr momentum weight_decay nesterov. Inr fixture_optimizer),
     Adam = (\<lambda>lr weight_decay. Inr fixture_optimizer),
     CosineAnnealingLR = (\<lambda>optimizer epochs. Inr fixture_scheduler),
     NT_Xent = (\<lambda>temperature. Inr fixture_criterion),
     ImageDataset = (\<lambda>path size jitter. Inr fixture_loader),
     DataLoader = (\<lambda>dataset batch_size sampler shuffle workers drop_last.
                     Inr (\<lambda>epoch. fixture_loader)),
     strftime = (\<lambda>format. ''2022-06-28_10:39:37'')\<rparr>"



section \<open>Running programs\<close>

lemma prog_simps [simp]:
  "bnd (ret v) f w = f v w"
  "bnd (raise e) f w = (Inl e, w)"
  "bnd (lift (Inr v)) f w = f v w"
  "bnd (lift (Inl e)) f w = (Inl e, w)"
  "ret v w = (Inr v, w)"
  "raise e w = (Inl e, w)"
  "lift r w = (r, w)"
  by (simp_all add: bnd_def ret_def raise_def lift_def)

lemma bnd_Inr: "m w = (Inr v, w') \<Longrightarrow> bnd m f w = f v w'"
  by (simp add: bnd_def)

lemma bnd_Inl: "m w = (Inl e, w') \<Longrightarrow> bnd m f w = (Inl e, w')"
  by (simp add: bnd_def)

lemma bnd_apply:
  "bnd m f w = (case m w of (Inl e, w') \<Rightarrow> (Inl e, w') | (Inr v, w') \<Rightarrow> f v w')"
  by (simp add: bnd_def)

section \<open>Evaluating the rounding\<close>







section \<open>Properties of one training epoch\<close>

lemma length_batch_losses:
  "length (batch_losses model criterion optimizer bs s) = length bs"
  by (induction bs arbitrary: s) (auto split: prod.splits)

lemma train_batches_vars:
  "train_batches model criterion optimizer i bs vars w = (vars', w') \<Longrightarrow>
   running_average_loss vars' =
     foldl py_add (running_average_loss vars)
       (map item (batch_losses model criterion optimizer bs (heap w, ext w)))
   \<and> step vars' = (if bs = [] then step vars else Some (i + length bs - 1))
   \<and> loss vars' = (if bs = [] then loss vars
                    else Some (last (batch_losses model criterion optimizer bs (heap w, ext w))))"
proof (induction bs arbitrary: i vars w)
  case Nil
  then show ?case by simp
next
  case (Cons b bs)
  obtain x1 x2 where b: "b = (x1, x2)"
    by (cases b)
  obtain h1 h2 where h: "call_model model (heap w) x1 x2 = (h1, h2)"
    by (cases "call_model model (heap w) x1 x2")
  obtain hp ex where o: "opt_step optimizer b (heap w, ext w) = (hp, ex)"
    by (cases "opt_step optimizer b (heap w, ext w)")
  define vars2 where "vars2 =
    \<lparr>running_average_loss = py_add (running_average_loss vars) (item (criterion h1 h2)),
     step = Some i, loss = Some (criterion h1 h2)\<rparr>"
  define w2 where "w2 = w\<lparr>heap := hp, ext := ex, events := events w @ [OptimizerStep]\<rparr>"
  have run: "train_batches model criterion optimizer (Suc i) bs vars2 w2 = (vars', w')"
    using Cons.prems o h unfolding b vars2_def w2_def by (simp add: Let_def)
  have bl: "batch_losses model criterion optimizer (b # bs) (heap w, ext w) =
      criterion h1 h2 # batch_losses model criterion optimizer bs (heap w2, ext w2)"
    using o h unfolding b w2_def by simp
  have emp: "batch_losses model criterion optimizer bs (heap w2, ext w2) = [] \<longleftrightarrow> bs = []"
    using length_batch_losses [of model criterion optimizer bs "(heap w2, ext w2)"]
    by (metis length_0_conv)
  from Cons.IH [OF run] show ?case
    unfolding bl by (simp add: vars2_def emp)
qed

text \<open>
  What lines 104 to 141 compute for a non-empty loader: the losses are summed in loader
  order as Python floats, the sum is divided by the number of batches, and the quotient
  becomes a tensor of the type of the last loss, which is reduced if the run is
  distributed.
\<close>

lemma train_one_epoch_local:
  assumes "train_dataloader \<noteq> []"
  shows "train_one_epoch model train_dataloader criterion optimizer local_rank distributed w =
     (let w1 = snd (train_batches model criterion optimizer 0 train_dataloader
                      \<lparr>running_average_loss = 0, step = None, loss = None\<rparr> w);
          ls = batch_losses model criterion optimizer train_dataloader (heap w, ext w);
          t = torch_tensor (py_float (float_sum (map item ls) / real (length train_dataloader)))
                (dtype_of (last ls))
      in bnd (if distributed then all_reduce_AVG t else ret t) (\<lambda>t. ret (item t)) w1)"
proof -
  obtain vars w1 where tb: "train_batches model criterion optimizer 0 train_dataloader
       \<lparr>running_average_loss = 0, step = None, loss = None\<rparr> w = (vars, w1)"
    by (cases "train_batches model criterion optimizer 0 train_dataloader
       \<lparr>running_average_loss = 0, step = None, loss = None\<rparr> w")
  from train_batches_vars [OF tb] assms
  have r: "running_average_loss vars =
      float_sum (map item (batch_losses model criterion optimizer train_dataloader
                             (heap w, ext w)))"
    and s: "step vars = Some (length train_dataloader - 1)"
    and l: "loss vars = Some (last (batch_losses model criterion optimizer train_dataloader
                             (heap w, ext w)))"
    by (simp_all add: float_sum_def)
  from assms have len: "Suc (length train_dataloader - 1) = length train_dataloader"
    by (cases train_dataloader) auto
  have div: "truediv (running_average_loss vars) (real (length train_dataloader - 1 + 1)) =
      Inr (py_float (running_average_loss vars / real (length train_dataloader)))"
    using assms len by (simp add: truediv_def)
  show ?thesis
    unfolding train_one_epoch_def tb Let_def prod.case s option.case div sum.case l
    by (simp add: r)
qed








lemma fround_0 [simp]: "fround p 0 = 0"
  by (simp add: fround_def)






text \<open>
  C2, as the claim states it, fails: with no batch the loop never binds \<^verbatim>\<open>step\<close>, and
  line 130 raises \<^verbatim>\<open>UnboundLocalError\<close> when it reads \<^verbatim>\<open>step\<close>, before any division.
\<close>

theorem train_one_epoch_empty_counterexample:
  "fst (train_one_epoch fixture_model [] fixture_criterion fixture_optimizer 0 False
          fixture_world) = Inl (UnboundLocalError ''step'')
   \<and> fst (train_one_epoch fixture_model [] fixture_criterion fixture_optimizer 0 False
          fixture_world) \<noteq> Inl ZeroDivisionError"
  by (simp add: train_one_epoch_def)

text \<open>
  C2, amended. For an empty loader \<^verbatim>\<open>train_one_epoch\<close> fails at the loss-normalization
  step with \<^verbatim>\<open>UnboundLocalError\<close> for \<^verbatim>\<open>step\<close>. For a non-empty loader the
  normalization never fails (neither an unbound name nor a division by zero), and
  without the reduction the function returns a value.
\<close>

theorem train_one_epoch_empty_loader:
  "(train_dataloader = [] \<longrightarrow>
      fst (train_one_epoch model train_dataloader criterion optimizer local_rank distributed w)
        = Inl (UnboundLocalError ''step''))
   \<and> (train_dataloader \<noteq> [] \<longrightarrow>
      fst (train_one_epoch model train_dataloader criterion optimizer local_rank distributed w)
        \<notin> {Inl (UnboundLocalError ''step''), Inl (UnboundLocalError ''loss''),
            Inl ZeroDivisionError}
      \<and> (\<exists>v. fst (train_one_epoch model train_dataloader criterion optimizer local_rank
                     False w) = Inr v))"
proof (intro conjI impI)
  assume "train_dataloader = []"
  then show "fst (train_one_epoch model train_dataloader criterion optimizer local_rank
                    distributed w) = Inl (UnboundLocalError ''step'')"
    by (simp add: train_one_epoch_def)
next
  assume ne: "train_dataloader \<noteq> []"
  show "fst (train_one_epoch model train_dataloader criterion optimizer local_rank
               distributed w)
        \<notin> {Inl (UnboundLocalError ''step''), Inl (UnboundLocalError ''loss''),
            Inl ZeroDivisionError}"
    by (simp add: train_one_epoch_local [OF ne] Let_def all_reduce_AVG_def bnd_apply
        split: option.splits)
  show "\<exists>v. fst (train_one_epoch model train_dataloader criterion optimizer local_rank
                   False w) = Inr v"
    by (simp add: train_one_epoch_local [OF ne] Let_def)
qed

theorem train_one_epoch_empty_loader_witness:
  "fst (train_one_epoch fixture_model [] fixture_criterion fixture_optimizer 0 True
          fixture_world) = Inl (UnboundLocalError ''step'')
   \<and> fixture_loader \<noteq> []
   \<and> fst (train_one_epoch fixture_model fixture_loader fixture_criterion fixture_optimizer 0
            True fixture_world) \<noteq> Inl ZeroDivisionError
   \<and> (\<exists>v. fst (train_one_epoch fixture_model fixture_loader fixture_criterion
                  fixture_optimizer 0 False fixture_world) = Inr v)"
proof -
  have ne: "fixture_loader \<noteq> []"
    by (simp add: fixture_loader_def)
  show ?thesis
    using ne
      train_one_epoch_empty_loader [of "[]" fixture_model fixture_criterion
        fixture_optimizer 0 True fixture_world]
      train_one_epoch_empty_loader [of fixture_loader fixture_model fixture_criterion
        fixture_optimizer 0 True fixture_world]
    by simp
qed

section \<open>Properties of the distributed reduction\<close>










section \<open>Properties of save and load\<close>

lemma architecture_copy_state:
  "map (\<lambda>(n, t). (n, shape t)) (copy_state sd own) = map (\<lambda>(n, t). (n, shape t)) own"
  by (induction own) (auto simp: copy_state_def split: option.splits)

lemma load_state_dict_result:
  "load_state_dict r sd w =
     (if state_matches (heap w r) sd then Inr ()
      else Inl (RuntimeError ''Error(s) in loading state_dict''),
      w\<lparr>heap := (heap w)(r := (heap w r)\<lparr>params := copy_state sd (params (heap w r))\<rparr>)\<rparr>)"
proof -
  have "(filter (\<lambda>n. n \<notin> set (map fst sd)) (map fst (params (heap w r))) = []
      \<and> filter (\<lambda>n. n \<notin> set (map fst (params (heap w r)))) (map fst sd) = []
      \<and> filter (\<lambda>(n, t). case map_of sd n of Some t' \<Rightarrow> shape t' \<noteq> shape t | None \<Rightarrow> False)
           (params (heap w r)) = [])
     \<longleftrightarrow> state_matches (heap w r) sd"
    unfolding state_matches_def filter_empty_conv
    by (auto split: option.splits)
  then show ?thesis
    by (simp add: load_state_dict_def Let_def)
qed


lemma state_matches_architecture:
  "state_matches m sd \<longleftrightarrow>
     set (map fst sd) = fst ` set (architecture m)
     \<and> (\<forall>(n, s) \<in> set (architecture m). \<forall>t'. map_of sd n = Some t' \<longrightarrow> shape t' = s)"
proof -
  have names: "fst ` set (architecture m) = set (map fst (params m))"
    unfolding architecture_def by force
  have shapes: "(\<forall>(n, s) \<in> set (architecture m). \<forall>t'. map_of sd n = Some t' \<longrightarrow> shape t' = s)
      \<longleftrightarrow> (\<forall>(n, t) \<in> set (params m). \<forall>t'. map_of sd n = Some t' \<longrightarrow> shape t' = shape t)"
    unfolding architecture_def by fastforce
  show ?thesis
    unfolding state_matches_def names shapes ..
qed

lemma architecture_copied:
  "architecture (m\<lparr>params := copy_state sd (params m)\<rparr>) = architecture m"
  by (simp add: architecture_def architecture_copy_state)

lemma state_matches_copy_state:
  "state_matches (m\<lparr>params := copy_state sd (params m)\<rparr>) sd' = state_matches m sd'"
  unfolding state_matches_architecture architecture_copied ..

lemma copy_state_holds:
  assumes "state_matches m sd" and "(n, t) \<in> set (copy_state sd (params m))"
  shows "map_of sd n = Some t"
proof -
  from assms(2) obtain t0 where t0: "(n, t0) \<in> set (params m)"
    and t: "t = (case map_of sd n of
                   Some t' \<Rightarrow> if shape t' = shape t0 then t' else t0 | None \<Rightarrow> t0)"
    unfolding copy_state_def by (auto split: option.splits if_splits)
  from t0 assms(1) have "n \<in> set (map fst sd)"
    unfolding state_matches_def by force
  then obtain t' where t': "map_of sd n = Some t'"
    by (cases "map_of sd n") (simp_all add: map_of_eq_None_iff)
  from t0 t' assms(1) have "shape t' = shape t0"
    unfolding state_matches_def by blast
  with t t' show ?thesis by simp
qed


lemma load_run:
  assumes fl: "files w path = Some checkpoint"
    and enc: "map_of checkpoint ''encoder'' = Some es"
    and head: "map_of checkpoint ''head'' = Some hs"
    and w1: "w1 = w\<lparr>heap := (heap w)(e := (heap w e)\<lparr>params := copy_state es (params (heap w e))\<rparr>)\<rparr>"
    and w2: "w2 = w1\<lparr>heap := (heap w1)(h := (heap w1 h)\<lparr>params := copy_state hs (params (heap w1 h))\<rparr>)\<rparr>"
  shows "load (VStr path) (VModule e) (VModule h) ml w =
     (if \<not> state_matches (heap w e) es
      then (Inl (RuntimeError ''Error(s) in loading state_dict''), w1)
      else if \<not> state_matches (heap w h) hs
      then (Inl (RuntimeError ''Error(s) in loading state_dict''), w2)
      else (Inr \<lparr>encoder = e, contrastive_head = h\<rparr>, w2))"
proof -
  have tl: "torch_load (VStr path) w = (Inr checkpoint, w)"
    by (simp add: torch_load_def fl)
  have l1: "load_state_dict e es w =
      (if state_matches (heap w e) es then Inr ()
       else Inl (RuntimeError ''Error(s) in loading state_dict''), w1)"
    unfolding w1 by (rule load_state_dict_result)
  have sm: "state_matches (heap w1 h) hs = state_matches (heap w h) hs"
    unfolding w1 by (simp add: state_matches_copy_state)
  have l2: "load_state_dict h hs w1 =
      (if state_matches (heap w h) hs then Inr ()
       else Inl (RuntimeError ''Error(s) in loading state_dict''), w2)"
    unfolding w2 sm [symmetric] by (rule load_state_dict_result)
  show ?thesis
    unfolding load_def
    by (simp add: bnd_apply tl l1 l2 module_method_def getitem_def enc head SimCLR_def)
qed


lemma copy_state_same_architecture:
  assumes arch: "map (\<lambda>(n, t). (n, shape t)) own = map (\<lambda>(n, t). (n, shape t)) sd"
    and dist: "distinct (map fst sd)"
  shows "copy_state sd own = sd"
proof (rule nth_equalityI)
  have len: "length own = length sd"
    using arg_cong [OF arch, of length] by simp
  show "length (copy_state sd own) = length sd"
    by (simp add: copy_state_def len)
  fix i assume "i < length (copy_state sd own)"
  then have i: "i < length own" "i < length sd"
    by (simp_all add: copy_state_def len)
  obtain n t where o: "own ! i = (n, t)" by (cases "own ! i")
  obtain n' t' where s: "sd ! i = (n', t')" by (cases "sd ! i")
  have "map (\<lambda>(n, t). (n, shape t)) own ! i = map (\<lambda>(n, t). (n, shape t)) sd ! i"
    by (simp add: arch)
  with i o s have eq: "n = n'" "shape t = shape t'"
    by simp_all
  have "(n', t') \<in> set sd"
    using i(2) s by (metis nth_mem)
  with dist have "map_of sd n' = Some t'"
    by simp
  with eq o s i show "copy_state sd own ! i = sd ! i"
    by (simp add: copy_state_def)
qed

lemma state_matches_same_architecture:
  assumes arch: "architecture m = map (\<lambda>(n, t). (n, shape t)) sd"
    and dist: "distinct (map fst sd)"
  shows "state_matches m sd"
proof -
  have names: "fst ` set (architecture m) = set (map fst sd)"
    unfolding arch by force
  have "shape t' = s" if "(n, s) \<in> set (architecture m)" "map_of sd n = Some t'" for n s t'
  proof -
    from that(1) obtain t where "(n, t) \<in> set sd" "s = shape t"
      unfolding arch by auto
    moreover from this dist have "map_of sd n = Some t"
      by simp
    ultimately show ?thesis
      using that(2) by simp
  qed
  then show ?thesis
    unfolding state_matches_architecture names by auto
qed

text \<open>
  C9. Given a checkpoint file with the entries \<^verbatim>\<open>encoder\<close> and \<^verbatim>\<open>head\<close>: if the state
  of either entry does not match the instance it is loaded into (names or shapes),
  \<^verbatim>\<open>SimCLR.load\<close> fails with the \<^verbatim>\<open>RuntimeError\<close> of \<^verbatim>\<open>load_state_dict\<close> (the
  specification's \<^verbatim>\<open>StateMismatchError\<close>), which nothing catches. If both match, it
  returns the composite of exactly the two given instances, every parameter of which now
  holds the tensor that the checkpoint has for its name, and no other instance changes.
\<close>

theorem load_state_mismatch:
  assumes fl: "files w path = Some checkpoint"
    and enc: "map_of checkpoint ''encoder'' = Some es"
    and head: "map_of checkpoint ''head'' = Some hs"
  shows "(\<not> state_matches (heap w e) es \<or> \<not> state_matches (heap w h) hs \<longrightarrow>
            fst (load (VStr path) (VModule e) (VModule h) ml w) =
              Inl (RuntimeError ''Error(s) in loading state_dict''))
       \<and> (state_matches (heap w e) es \<and> state_matches (heap w h) hs \<longrightarrow>
            (\<exists>w'. load (VStr path) (VModule e) (VModule h) ml w =
                     (Inr \<lparr>encoder = e, contrastive_head = h\<rparr>, w')
                 \<and> (\<forall>(n, t) \<in> set (params (heap w' h)). map_of hs n = Some t)
                 \<and> (e \<noteq> h \<longrightarrow> (\<forall>(n, t) \<in> set (params (heap w' e)). map_of es n = Some t))
                 \<and> (\<forall>r. r \<noteq> e \<longrightarrow> r \<noteq> h \<longrightarrow> heap w' r = heap w r)))"
proof -
  define w1 where "w1 = w\<lparr>heap := (heap w)(e := (heap w e)\<lparr>params := copy_state es (params (heap w e))\<rparr>)\<rparr>"
  define w2 where "w2 = w1\<lparr>heap := (heap w1)(h := (heap w1 h)\<lparr>params := copy_state hs (params (heap w1 h))\<rparr>)\<rparr>"
  note run = load_run [OF fl enc head w1_def w2_def, of ml]
  have bad: "fst (load (VStr path) (VModule e) (VModule h) ml w) =
        Inl (RuntimeError ''Error(s) in loading state_dict'')"
    if "\<not> state_matches (heap w e) es \<or> \<not> state_matches (heap w h) hs"
    using that by (auto simp: run)
  have good: "\<exists>w'. load (VStr path) (VModule e) (VModule h) ml w =
                     (Inr \<lparr>encoder = e, contrastive_head = h\<rparr>, w')
                 \<and> (\<forall>(n, t) \<in> set (params (heap w' h)). map_of hs n = Some t)
                 \<and> (e \<noteq> h \<longrightarrow> (\<forall>(n, t) \<in> set (params (heap w' e)). map_of es n = Some t))
                 \<and> (\<forall>r. r \<noteq> e \<longrightarrow> r \<noteq> h \<longrightarrow> heap w' r = heap w r)"
    if me: "state_matches (heap w e) es" and mh: "state_matches (heap w h) hs"
  proof (intro exI conjI)
    show "load (VStr path) (VModule e) (VModule h) ml w =
        (Inr \<lparr>encoder = e, contrastive_head = h\<rparr>, w2)"
      using me mh by (simp add: run)
    have mh1: "state_matches (heap w1 h) hs"
      using mh unfolding w1_def by (cases "h = e") (simp_all add: state_matches_copy_state)
    show "\<forall>(n, t) \<in> set (params (heap w2 h)). map_of hs n = Some t"
      using copy_state_holds [OF mh1] unfolding w2_def by auto
    show "e \<noteq> h \<longrightarrow> (\<forall>(n, t) \<in> set (params (heap w2 e)). map_of es n = Some t)"
      using copy_state_holds [OF me] unfolding w2_def w1_def by auto
    show "\<forall>r. r \<noteq> e \<longrightarrow> r \<noteq> h \<longrightarrow> heap w2 r = heap w r"
      unfolding w2_def w1_def by simp
  qed
  from bad good show ?thesis by blast
qed


lemma save_run:
  "save m path w =
     (Inr (), w\<lparr>files := (files w)(path \<mapsto> [(''encoder'', params (heap w (encoder m))),
                                           (''head'', params (heap w (contrastive_head m)))]),
                events := events w @ [TorchSave path]\<rparr>)"
  by (simp add: save_def torch_save_def state_dict_def Let_def)

text \<open>
  C6. \<^verbatim>\<open>save\<close> always succeeds and leaves at \<open>path\<close> a mapping with exactly the keys
  \<^verbatim>\<open>encoder\<close> and \<^verbatim>\<open>head\<close>. \<^verbatim>\<open>load\<close> from a file with that content, into two distinct
  instances with the architectures of the saved encoder and head, returns their
  composite, and their state dicts are then equal to the saved ones. (The parameter
  names of a module are distinct: its state dict is a dictionary.)
\<close>

theorem save_load_roundtrip:
  assumes de: "distinct (map fst (params (heap w (encoder m))))"
    and dh: "distinct (map fst (params (heap w (contrastive_head m))))"
    and saved: "save m path w = (r, w1)"
    and same_file: "files wl path = files w1 path"
    and ae: "architecture (heap wl e') = architecture (heap w (encoder m))"
    and ah: "architecture (heap wl h') = architecture (heap w (contrastive_head m))"
    and neq: "e' \<noteq> h'"
  shows "r = Inr ()
     \<and> (\<exists>ck. files w1 path = Some ck \<and> map fst ck = [''encoder'', ''head''])
     \<and> (\<exists>w2. load (VStr path) (VModule e') (VModule h') ml wl =
                 (Inr \<lparr>encoder = e', contrastive_head = h'\<rparr>, w2)
             \<and> state_dict (heap w2 e') = state_dict (heap w (encoder m))
             \<and> state_dict (heap w2 h') = state_dict (heap w (contrastive_head m)))"
proof -
  define es where "es = params (heap w (encoder m))"
  define hs where "hs = params (heap w (contrastive_head m))"
  define ck where "ck = [(''encoder'', es), (''head'', hs)]"
  from saved have r: "r = Inr ()" and f1: "files w1 path = Some ck"
    unfolding save_run ck_def es_def hs_def by auto
  have fl: "files wl path = Some ck"
    using same_file f1 by simp
  have enc: "map_of ck ''encoder'' = Some es" and head: "map_of ck ''head'' = Some hs"
    by (simp_all add: ck_def)
  define w1' where "w1' = wl\<lparr>heap := (heap wl)(e' := (heap wl e')\<lparr>params := copy_state es (params (heap wl e'))\<rparr>)\<rparr>"
  define w2 where "w2 = w1'\<lparr>heap := (heap w1')(h' := (heap w1' h')\<lparr>params := copy_state hs (params (heap w1' h'))\<rparr>)\<rparr>"
  have ae': "map (\<lambda>(n, t). (n, shape t)) (params (heap wl e')) = map (\<lambda>(n, t). (n, shape t)) es"
    using ae by (simp add: architecture_def es_def)
  have ah': "map (\<lambda>(n, t). (n, shape t)) (params (heap wl h')) = map (\<lambda>(n, t). (n, shape t)) hs"
    using ah by (simp add: architecture_def hs_def)
  have me: "state_matches (heap wl e') es"
    using ae' de by (intro state_matches_same_architecture) (simp_all add: architecture_def es_def)
  have mh: "state_matches (heap wl h') hs"
    using ah' dh by (intro state_matches_same_architecture) (simp_all add: architecture_def hs_def)
  have run: "load (VStr path) (VModule e') (VModule h') ml wl =
      (Inr \<lparr>encoder = e', contrastive_head = h'\<rparr>, w2)"
    using me mh by (simp add: load_run [OF fl enc head w1'_def w2_def])
  have ce: "copy_state es (params (heap wl e')) = es"
    using ae' de by (intro copy_state_same_architecture) (simp_all add: es_def)
  have ch: "copy_state hs (params (heap wl h')) = hs"
    using ah' dh by (intro copy_state_same_architecture) (simp_all add: hs_def)
  have pe: "params (heap w2 e') = es"
    using neq by (simp add: w2_def w1'_def ce)
  have ph: "params (heap w2 h') = hs"
    using neq by (simp add: w2_def w1'_def ch)
  show ?thesis
    using r f1 run pe ph by (simp add: state_dict_def es_def hs_def ck_def)
qed


lemma fixture_store_simps:
  "params (fixture_store 2) = [(''conv.weight'', Tensor [2] [1, 2]), (''conv.bias'', Tensor [1] [3])]"
  "params (fixture_store 3) = [(''fc.weight'', Tensor [1] [4])]"
  "params (fixture_store 4) = [(''conv.weight'', Tensor [2] [0, 0]), (''conv.bias'', Tensor [1] [0])]"
  "params (fixture_store 5) = [(''fc.weight'', Tensor [1] [0])]"
  by (simp_all add: fixture_store_def)

lemma fixture_io_heap: "heap fixture_io_world = fixture_store"
  by (simp add: fixture_io_world_def)

text \<open>
  The trained fixture encoder and head are saved and loaded into the fresh instances at
  the addresses 4 and 5.
\<close>

theorem save_load_roundtrip_witness:
  "distinct (map fst (params (heap fixture_io_world (encoder fixture_simclr))))
   \<and> distinct (map fst (params (heap fixture_io_world (contrastive_head fixture_simclr))))
   \<and> architecture (heap (snd (save fixture_simclr ''ckpt.pth'' fixture_io_world)) 4) =
       architecture (heap fixture_io_world (encoder fixture_simclr))
   \<and> architecture (heap (snd (save fixture_simclr ''ckpt.pth'' fixture_io_world)) 5) =
       architecture (heap fixture_io_world (contrastive_head fixture_simclr))
   \<and> (\<exists>w2. load (VStr ''ckpt.pth'') (VModule 4) (VModule 5) VNone
               (snd (save fixture_simclr ''ckpt.pth'' fixture_io_world)) =
                 (Inr \<lparr>encoder = 4, contrastive_head = 5\<rparr>, w2)
           \<and> state_dict (heap w2 4) =
               [(''conv.weight'', Tensor [2] [1, 2]), (''conv.bias'', Tensor [1] [3])]
           \<and> state_dict (heap w2 5) = [(''fc.weight'', Tensor [1] [4])])"
proof -
  define w1 where "w1 = snd (save fixture_simclr ''ckpt.pth'' fixture_io_world)"
  have h1: "heap w1 = fixture_store"
    by (simp add: w1_def save_run fixture_io_heap)
  have de: "distinct (map fst (params (heap fixture_io_world (encoder fixture_simclr))))"
    and dh: "distinct (map fst (params (heap fixture_io_world (contrastive_head fixture_simclr))))"
    by (simp_all add: fixture_io_heap fixture_simclr_def fixture_store_simps)
  have saved: "save fixture_simclr ''ckpt.pth'' fixture_io_world =
      (fst (save fixture_simclr ''ckpt.pth'' fixture_io_world), w1)"
    by (simp add: w1_def)
  have ae: "architecture (heap w1 4) = architecture (heap fixture_io_world (encoder fixture_simclr))"
    and ah: "architecture (heap w1 5) =
      architecture (heap fixture_io_world (contrastive_head fixture_simclr))"
    by (simp_all add: h1 fixture_io_heap fixture_simclr_def architecture_def fixture_store_simps)
  have neq: "(4::nat) \<noteq> 5"
    by simp
  from save_load_roundtrip [OF de dh saved refl ae ah neq, of VNone]
  obtain w2 where run: "load (VStr ''ckpt.pth'') (VModule 4) (VModule 5) VNone w1 =
        (Inr \<lparr>encoder = 4, contrastive_head = 5\<rparr>, w2)"
    and e: "state_dict (heap w2 4) = state_dict (heap fixture_io_world (encoder fixture_simclr))"
    and h: "state_dict (heap w2 5) =
        state_dict (heap fixture_io_world (contrastive_head fixture_simclr))"
    by blast
  have e': "state_dict (heap w2 4) =
      [(''conv.weight'', Tensor [2] [1, 2]), (''conv.bias'', Tensor [1] [3])]"
    unfolding e by (simp add: state_dict_def fixture_io_heap fixture_simclr_def
        fixture_store_simps)
  have h': "state_dict (heap w2 5) = [(''fc.weight'', Tensor [1] [4])]"
    unfolding h by (simp add: state_dict_def fixture_io_heap fixture_simclr_def
        fixture_store_simps)
  show ?thesis
    unfolding w1_def [symmetric] using de dh ae ah run e' h' by blast
qed

text \<open>
  The saved fixture checkpoint is loaded once into the fresh instances (a match) and once
  with the two instances swapped (the names differ).
\<close>

theorem load_state_mismatch_witness:
  "(\<exists>w'. load (VStr ''ckpt.pth'') (VModule 4) (VModule 5) VNone
            (snd (save fixture_simclr ''ckpt.pth'' fixture_io_world)) =
              (Inr \<lparr>encoder = 4, contrastive_head = 5\<rparr>, w')
         \<and> params (heap w' 5) = [(''fc.weight'', Tensor [1] [4])])
   \<and> fst (load (VStr ''ckpt.pth'') (VModule 5) (VModule 4) VNone
            (snd (save fixture_simclr ''ckpt.pth'' fixture_io_world))) =
       Inl (RuntimeError ''Error(s) in loading state_dict'')"
proof -
  define w1 where "w1 = snd (save fixture_simclr ''ckpt.pth'' fixture_io_world)"
  define es where "es = [(''conv.weight'', Tensor [2] [1, 2]), (''conv.bias'', Tensor [1] [3])]"
  define hs where "hs = [(''fc.weight'', Tensor [1] [4])]"
  have h1: "heap w1 = fixture_store"
    by (simp add: w1_def save_run fixture_io_heap)
  have fl: "files w1 ''ckpt.pth'' = Some [(''encoder'', es), (''head'', hs)]"
    by (simp add: w1_def save_run fixture_io_heap fixture_simclr_def fixture_store_simps
        es_def hs_def)
  have enc: "map_of [(''encoder'', es), (''head'', hs)] ''encoder'' = Some es"
    and head: "map_of [(''encoder'', es), (''head'', hs)] ''head'' = Some hs"
    by simp_all
  have m2: "state_matches (heap w1 4) es" and m3: "state_matches (heap w1 5) hs"
    and n3: "\<not> state_matches (heap w1 5) es"
    by (simp_all add: h1 state_matches_def fixture_store_simps es_def hs_def)
  from load_state_mismatch [OF fl enc head, of 4 5 VNone] m2 m3
  obtain w' where run: "load (VStr ''ckpt.pth'') (VModule 4) (VModule 5) VNone w1 =
        (Inr \<lparr>encoder = 4, contrastive_head = 5\<rparr>, w')"
    and holds: "\<forall>(n, t) \<in> set (params (heap w' 5)). map_of hs n = Some t"
    by blast
  have arch: "architecture (heap w' 5) = architecture (heap w1 5)"
    using run m2 m3
    by (auto simp: load_run [OF fl enc head refl refl] architecture_copied)
  have "params (heap w' 5) = hs"
  proof -
    from arch obtain t where p: "params (heap w' 5) = [(''fc.weight'', t)]"
      by (auto simp: architecture_def h1 fixture_store_simps)
    with holds show ?thesis by (simp add: hs_def)
  qed
  moreover have "fst (load (VStr ''ckpt.pth'') (VModule 5) (VModule 4) VNone w1) =
       Inl (RuntimeError ''Error(s) in loading state_dict'')"
    using load_state_mismatch [OF fl enc head, of 5 4 VNone] n3 by blast
  ultimately show ?thesis
    using run by (simp add: w1_def hs_def)
qed

section \<open>The events of a training run\<close>

lemma preservesI: "(\<And>w. filter P (events (snd (m w))) = filter P (events w)) \<Longrightarrow> preserves P m"
  by (simp add: preserves_def)

lemma preservesD: "preserves P m \<Longrightarrow> filter P (events (snd (m w))) = filter P (events w)"
  by (simp add: preserves_def)

lemma preserves_ret [simp]: "preserves P (ret v)"
  by (simp add: preserves_def)

lemma preserves_raise [simp]: "preserves P (raise e)"
  by (simp add: preserves_def)

lemma preserves_lift [simp]: "preserves P (lift r)"
  by (simp add: preserves_def)

lemma preserves_emit: "\<not> P ev \<Longrightarrow> preserves P (emit ev)"
  by (simp add: preserves_def emit_def)

lemma preserves_bnd:
  assumes "preserves P m" and "\<And>v. preserves P (f v)"
  shows "preserves P (bnd m f)"
proof (rule preservesI)
  fix w
  obtain r w1 where m: "m w = (r, w1)" by (cases "m w")
  have e1: "filter P (events w1) = filter P (events w)"
    using preservesD [OF assms(1), of w] m by simp
  show "filter P (events (snd (bnd m f w))) = filter P (events w)"
  proof (cases r)
    case (Inl e)
    then show ?thesis using m e1 by (simp add: bnd_apply)
  next
    case (Inr v)
    then show ?thesis
      using m e1 preservesD [OF assms(2), of v w1] by (simp add: bnd_apply)
  qed
qed

lemma preserves_for_each:
  assumes "\<And>x. preserves P (body x)"
  shows "preserves P (for_each body xs)"
proof (rule preservesI)
  fix w
  show "filter P (events (snd (for_each body xs w))) = filter P (events w)"
  proof (induction xs arbitrary: w)
    case Nil
    then show ?case by simp
  next
    case (Cons x xs)
    obtain r w1 where b: "body x w = (r, w1)" by (cases "body x w")
    have e1: "filter P (events w1) = filter P (events w)"
      using preservesD [OF assms, of x w] b by simp
    show ?case
      using b e1 Cons.IH [of w1] by (cases r) simp_all
  qed
qed

lemma train_batches_events:
  "train_batches model criterion optimizer i bs vars w = (vars', w') \<Longrightarrow>
   events w' = events w @ replicate (length bs) OptimizerStep"
proof (induction bs arbitrary: i vars w)
  case Nil
  then show ?case by simp
next
  case (Cons b bs)
  obtain x1 x2 where b: "b = (x1, x2)"
    by (cases b)
  obtain h1 h2 where h: "call_model model (heap w) x1 x2 = (h1, h2)"
    by (cases "call_model model (heap w) x1 x2")
  obtain hp ex where o: "opt_step optimizer b (heap w, ext w) = (hp, ex)"
    by (cases "opt_step optimizer b (heap w, ext w)")
  define vars2 where "vars2 =
    \<lparr>running_average_loss = py_add (running_average_loss vars) (item (criterion h1 h2)),
     step = Some i, loss = Some (criterion h1 h2)\<rparr>"
  define w2 where "w2 = w\<lparr>heap := hp, ext := ex, events := events w @ [OptimizerStep]\<rparr>"
  have run: "train_batches model criterion optimizer (Suc i) bs vars2 w2 = (vars', w')"
    using Cons.prems o h unfolding b vars2_def w2_def by (simp add: Let_def)
  from Cons.IH [OF run] show ?case
    by (simp add: w2_def replicate_app_Cons_same)
qed

lemma preserves_train_one_epoch:
  assumes "\<not> P OptimizerStep" and "\<not> P AllReduce"
  shows "preserves P (train_one_epoch model loader criterion optimizer local_rank distributed)"
proof (rule preservesI)
  fix w
  obtain vars w1 where tb: "train_batches model criterion optimizer 0 loader
       \<lparr>running_average_loss = 0, step = None, loss = None\<rparr> w = (vars, w1)"
    by (cases "train_batches model criterion optimizer 0 loader
       \<lparr>running_average_loss = 0, step = None, loss = None\<rparr> w")
  have e1: "filter P (events w1) = filter P (events w)"
    using train_batches_events [OF tb] assms(1) by simp
  show "filter P (events (snd (train_one_epoch model loader criterion optimizer local_rank
      distributed w))) = filter P (events w)"
  proof (cases "loader = []")
    case True
    then show ?thesis by (simp add: train_one_epoch_def)
  next
    case False
    show ?thesis
      using tb e1 assms(2)
      by (simp add: train_one_epoch_local [OF False] Let_def all_reduce_AVG_def bnd_apply
          split: option.splits)
  qed
qed

lemma preserves_validate_one_epoch:
  assumes "\<not> P ValidateEpoch"
  shows "preserves P (validate_one_epoch model loader criterion local_rank)"
proof -
  have "preserves P (emit ValidateEpoch)"
    using assms by (rule preserves_emit)
  then show ?thesis
    unfolding validate_one_epoch_def
    by (rule preserves_bnd) (simp add: preserves_def split: prod.splits option.splits)
qed

lemma preserves_add_scalar:
  assumes "writer = None \<or> \<not> P (AddScalar tag v n)"
  shows "preserves P (add_scalar writer tag v n)"
  using assms by (auto simp: add_scalar_def preserves_emit split: option.splits)

lemma preserves_save_model:
  assumes "\<not> P (TorchSave path)"
  shows "preserves P (save_model distributed model path)"
  using assms
  by (auto simp: save_model_def save_def torch_save_def preserves_def Let_def
      split: model_obj.splits)


lemma preserves_if:
  "(c \<Longrightarrow> preserves P m) \<Longrightarrow> (\<not> c \<Longrightarrow> preserves P n) \<Longrightarrow> preserves P (if c then m else n)"
  by simp

lemma preserves_set_epoch:
  "\<not> P (SetEpoch epoch) \<Longrightarrow>
   preserves P (case sampler of None \<Rightarrow> raise (AttributeError ''set_epoch'')
                | Some u \<Rightarrow> emit (SetEpoch epoch))"
  by (cases sampler) (simp_all add: preserves_emit)

lemma preserves_scheduler:
  "\<not> P SchedulerStep \<Longrightarrow>
   preserves P (case scheduler of
            Some s \<Rightarrow> (\<lambda>w. (Inr (last_lr s (ext w)),
                             w\<lparr>ext := scheduler_step s (ext w),
                               events := events w @ [SchedulerStep]\<rparr>))
          | None \<Rightarrow> (\<lambda>w. (Inr (param_lr optimizer (ext w)), w)))"
  by (cases scheduler) (simp_all add: preserves_def)

lemma preserves_validation_branch:
  "(val_dataloader \<noteq> None \<Longrightarrow> rank = 0 \<Longrightarrow> \<not> P ValidateEpoch) \<Longrightarrow>
   preserves P (case val_dataloader of
            Some loader \<Rightarrow>
              if rank = 0
              then bnd (validate_one_epoch model (loader epoch) criterion local_rank)
                     (\<lambda>v. ret (Some v))
              else ret None
          | None \<Rightarrow> ret None)"
  by (cases val_dataloader) (auto intro!: preserves_bnd preserves_validate_one_epoch)

lemma report_epoch_no_writer:
  "report_epoch model distributed has_val None epoch train_loss val_loss lr w =
     (if has_val \<and> val_loss = None
      then (Inl (UnboundLocalError ''val_loss''), w)
      else (Inl (AttributeError ''add_scalar''), w\<lparr>events := events w @ [Print]\<rparr>))"
  by (cases val_loss) (simp_all add: report_epoch_def bnd_apply emit_def add_scalar_def)

lemma preserves_report_epoch_no_writer:
  "preserves is_write (report_epoch model distributed has_val None epoch train_loss val_loss lr)"
  by (simp add: preserves_def report_epoch_no_writer)

lemma preserves_print:
  "\<not> P Print \<Longrightarrow>
   preserves P (if has_val
          then (case val_loss of
                  None \<Rightarrow> raise (UnboundLocalError ''val_loss'')
                | Some v \<Rightarrow> emit Print)
          else emit Print)"
  by (cases val_loss) (simp_all add: preserves_emit)

lemma preserves_report_epoch_no_val:
  "preserves is_validation
     (report_epoch model distributed False writer epoch train_loss val_loss lr)"
  unfolding report_epoch_def
  by (intro preserves_bnd preserves_print preserves_add_scalar preserves_save_model
      preserves_lift preserves_if preserves_ret) simp_all

lemma preserves_barrier:
  "\<not> P Barrier \<Longrightarrow> preserves P (if distributed then emit Barrier else ret ())"
  by (simp add: preserves_emit)

lemma preserves_train_epoch_write:
  assumes "writer = None \<or> rank \<noteq> 0"
  shows "preserves is_write (train_epoch model train_dataloader val_dataloader criterion
     optimizer scheduler writer sampler local_rank distributed rank epoch)"
proof -
  have rep: "preserves is_write (if rank = 0
          then report_epoch model distributed (val_dataloader \<noteq> None) writer epoch
                 train_loss val_loss lr
          else ret ())" for train_loss val_loss lr
    using assms by (auto simp: preserves_report_epoch_no_writer)
  show ?thesis
    unfolding train_epoch_def
    by (intro preserves_bnd preserves_if preserves_set_epoch preserves_train_one_epoch
        preserves_scheduler preserves_validation_branch rep preserves_barrier preserves_ret
        preserves_emit) simp_all
qed

lemma preserves_train_epoch_validation:
  "preserves is_validation (train_epoch model train_dataloader None criterion
     optimizer scheduler writer sampler local_rank distributed rank epoch)"
proof -
  have rep: "preserves is_validation (if rank = 0
          then report_epoch model distributed (None \<noteq> (None :: (nat \<Rightarrow> batch list) option))
                 writer epoch train_loss val_loss lr
          else ret ())" for train_loss val_loss lr
    by (simp add: preserves_report_epoch_no_val)
  show ?thesis
    unfolding train_epoch_def
    by (intro preserves_bnd preserves_if preserves_set_epoch preserves_train_one_epoch
        preserves_scheduler preserves_validation_branch rep preserves_barrier preserves_ret
        preserves_emit) simp_all
qed

lemma train_unfold:
  "train model epochs train_dataloader val_dataloader criterion optimizer scheduler writer
     sampler local_rank w =
   for_each (train_epoch model train_dataloader val_dataloader criterion optimizer
               scheduler writer sampler local_rank (process_group w \<noteq> None)
               (case process_group w of Some r \<Rightarrow> r | None \<Rightarrow> 0))
     [0..<nat epochs] w"
  by (simp add: train_def split: option.splits)

lemma preserves_train_validation:
  "preserves is_validation (train model epochs train_dataloader None criterion
     optimizer scheduler writer sampler local_rank)"
  by (rule preservesI, unfold train_unfold,
      rule preservesD [OF preserves_for_each [OF preserves_train_epoch_validation]])

lemma train_no_write:
  assumes "writer = None \<or> (\<exists>r. process_group w = Some r \<and> r \<noteq> 0)"
  shows "filter is_write (events (snd (train model epochs train_dataloader val_dataloader
      criterion optimizer scheduler writer sampler local_rank w))) = filter is_write (events w)"
proof -
  have "writer = None \<or> (case process_group w of Some r \<Rightarrow> r | None \<Rightarrow> 0) \<noteq> 0"
    using assms by auto
  then show ?thesis
    unfolding train_unfold
    by (intro preservesD [OF preserves_for_each [OF preserves_train_epoch_write]])
qed

section \<open>The checkpoints of a training run\<close>


lemma saved_paths_append [simp]: "saved_paths (xs @ ys) = saved_paths xs @ saved_paths ys"
  by (induction xs rule: saved_paths.induct) simp_all




















section \<open>parse_args: the namespace returned\<close>

lemma andthen_simps [simp]:
  "andthen (Inr v) f = f v"
  "andthen (Inl e) f = Inl e"
  by (simp_all add: andthen_def)

lemma andthen_Inr_iff:
  "andthen r f = Inr y \<longleftrightarrow> (\<exists>v. r = Inr v \<and> f v = Inr y)"
  by (cases r) simp_all

lemma float_literal_0 [simp]: "float_literal 0 = Float 0"
  by (simp add: float_literal_def py_float_def)

lemma arguments_lookup:
  "map_of (arguments c td ld) ''nodes'' = Some (VInt (default 1 (cli_nodes c)))"
  "map_of (arguments c td ld) ''gpus'' = Some (VInt (default 8 (cli_gpus c)))"
  "map_of (arguments c td ld) ''node_index'' = Some (VInt (default 0 (cli_node_index c)))"
  "map_of (arguments c td ld) ''batch_size'' = Some (VInt (default 32 (cli_batch_size c)))"
  "map_of (arguments c td ld) ''seed'' = Some (VInt (default 123 (cli_seed c)))"
  "map_of (arguments c td ld) ''lr'' = Some (VFloat (default (Float 0) (cli_lr c)))"
  "map_of (arguments c td ld) ''log_dir'' = Some (VStr ld)"
  "map_of (arguments c td ld) ''val_dataset'' = Some (VStr (default ''None'' (cli_val_dataset c)))"
  "map_of (arguments c td ld) ''master_address'' =
     Some (VStr (default ''localhost'' (cli_master_address c)))"
  "map_of (arguments c td ld) ''master_port'' = Some (VStr (default ''12355'' (cli_master_port c)))"
  "map_of (arguments c td ld) ''model'' = None"
  "map_of (arguments c td ld) ''arch_depth'' = None"
  "map_of (arguments c td ld) ''arch_width'' = None"
  "map_of (arguments c td ld) ''arch_sk'' = None"
  "map_of (arguments c td ld) ''world_size'' = None"
  by (simp_all add: arguments_def)

text \<open>The namespace that parse_args returns, in closed form.\<close>

lemma parse_args_result:
  assumes "parse_args c = Inr args"
  obtains td ld where
    "cli_train_dataset c = Some td" "cli_log_dir c = Some ld" "ld \<noteq> []"
    "args = (let a = (map_of (arguments c td ld))
                       (''world_size'' \<mapsto> VInt (default 1 (cli_nodes c) * default 8 (cli_gpus c)));
                 a = (if last ld = CHR ''/'' then a(''log_dir'' \<mapsto> VStr (butlast ld)) else a)
             in if default (Float 0) (cli_lr c) = Float 0
                then a(''lr'' \<mapsto> VFloat (fmul (float_literal (5 / 1000))
                       (np_sqrt (default 32 (cli_batch_size c)
                                 * (default 1 (cli_nodes c) * default 8 (cli_gpus c))))))
                else a)"
proof -
  from assms obtain a where p: "parser_parse_args c = Inr a"
    unfolding parse_args_def by (auto simp: andthen_Inr_iff)
  then obtain td ld where td: "cli_train_dataset c = Some td" and ld: "cli_log_dir c = Some ld"
    and a: "a = map_of (arguments c td ld)"
    unfolding parser_parse_args_def by (auto split: option.splits if_splits)
  have ne: "ld \<noteq> []"
  proof
    assume "ld = []"
    then have "parse_args c = Inl IndexError"
      unfolding parse_args_def p a
      by (simp add: int_attr_def str_attr_def getattr_def as_int_def as_str_def
          arguments_lookup last_char_def Let_def)
    with assms show False by simp
  qed
  have "parse_args c = Inr (let a = (map_of (arguments c td ld))
                       (''world_size'' \<mapsto> VInt (default 1 (cli_nodes c) * default 8 (cli_gpus c)));
                 a = (if last ld = CHR ''/'' then a(''log_dir'' \<mapsto> VStr (butlast ld)) else a)
             in if default (Float 0) (cli_lr c) = Float 0
                then a(''lr'' \<mapsto> VFloat (fmul (float_literal (5 / 1000))
                       (np_sqrt (default 32 (cli_batch_size c)
                                 * (default 1 (cli_nodes c) * default 8 (cli_gpus c))))))
                else a)"
    unfolding parse_args_def p a using ne
    by (simp add: int_attr_def str_attr_def getattr_def as_int_def as_str_def
        arguments_lookup last_char_def Let_def eq_zero_def)
  with assms td ld ne show ?thesis
    by (intro that [of td ld]) simp_all
qed

lemma parse_args_other:
  assumes "parse_args c = Inr args"
    and "name \<noteq> ''world_size''" and "name \<noteq> ''log_dir''" and "name \<noteq> ''lr''"
  shows "\<exists>td ld. args name = map_of (arguments c td ld) name"
proof -
  from parse_args_result [OF assms(1)] obtain td ld where
    "args = (let a = (map_of (arguments c td ld))
                       (''world_size'' \<mapsto> VInt (default 1 (cli_nodes c) * default 8 (cli_gpus c)));
                 a = (if last ld = CHR ''/'' then a(''log_dir'' \<mapsto> VStr (butlast ld)) else a)
             in if default (Float 0) (cli_lr c) = Float 0
                then a(''lr'' \<mapsto> VFloat (fmul (float_literal (5 / 1000))
                       (np_sqrt (default 32 (cli_batch_size c)
                                 * (default 1 (cli_nodes c) * default 8 (cli_gpus c))))))
                else a)"
    by blast
  then have "args name = map_of (arguments c td ld) name"
    using assms(2-4) by (simp add: Let_def)
  then show ?thesis by blast
qed

lemma parse_args_world_size:
  assumes "parse_args c = Inr args"
  shows "args ''world_size'' = Some (VInt (default 1 (cli_nodes c) * default 8 (cli_gpus c)))"
proof -
  from parse_args_result [OF assms] obtain td ld where
    "args = (let a = (map_of (arguments c td ld))
                       (''world_size'' \<mapsto> VInt (default 1 (cli_nodes c) * default 8 (cli_gpus c)));
                 a = (if last ld = CHR ''/'' then a(''log_dir'' \<mapsto> VStr (butlast ld)) else a)
             in if default (Float 0) (cli_lr c) = Float 0
                then a(''lr'' \<mapsto> VFloat (fmul (float_literal (5 / 1000))
                       (np_sqrt (default 32 (cli_batch_size c)
                                 * (default 1 (cli_nodes c) * default 8 (cli_gpus c))))))
                else a)"
    by blast
  then show ?thesis
    by (simp add: Let_def)
qed


lemma parse_args_attrs:
  assumes "parse_args c = Inr args"
  shows "args ''nodes'' = Some (VInt (default 1 (cli_nodes c)))"
    and "args ''gpus'' = Some (VInt (default 8 (cli_gpus c)))"
    and "args ''node_index'' = Some (VInt (default 0 (cli_node_index c)))"
    and "args ''batch_size'' = Some (VInt (default 32 (cli_batch_size c)))"
    and "args ''seed'' = Some (VInt (default 123 (cli_seed c)))"
    and "args ''master_address'' = Some (VStr (default ''localhost'' (cli_master_address c)))"
    and "args ''master_port'' = Some (VStr (default ''12355'' (cli_master_port c)))"
    and "args ''val_dataset'' = Some (VStr (default ''None'' (cli_val_dataset c)))"
    and "args ''model'' = None"
    and "args ''arch_depth'' = None"
    and "args ''arch_width'' = None"
    and "args ''arch_sk'' = None"
  using parse_args_other [OF assms, of "''nodes''"]
    parse_args_other [OF assms, of "''gpus''"]
    parse_args_other [OF assms, of "''node_index''"]
    parse_args_other [OF assms, of "''batch_size''"]
    parse_args_other [OF assms, of "''seed''"]
    parse_args_other [OF assms, of "''master_address''"]
    parse_args_other [OF assms, of "''master_port''"]
    parse_args_other [OF assms, of "''val_dataset''"]
    parse_args_other [OF assms, of "''model''"]
    parse_args_other [OF assms, of "''arch_depth''"]
    parse_args_other [OF assms, of "''arch_width''"]
    parse_args_other [OF assms, of "''arch_sk''"]
  by (simp_all add: arguments_lookup)





lemma fixture_parse_args: "\<exists>args. parse_args fixture_cli = Inr args"
  by (simp add: parse_args_def parser_parse_args_def fixture_cli_def choice_ok_def
      int_attr_def str_attr_def getattr_def as_int_def as_str_def arguments_lookup
      last_char_def Let_def eq_zero_def default_def)


section \<open>main: the failure before training\<close>

lemma main_objects_fails:
  assumes "parse_args c = Inr args"
  shows "\<exists>e w'. main_objects env local_rank args w = (Inl e, w')
           \<and> e = (if default 123 (cli_seed c) < - (2 ^ 63) \<or> 2 ^ 64 \<le> default 123 (cli_seed c)
                  then RuntimeError ''Overflow when unpacking long''
                  else if default 123 (cli_seed c) < 0 \<or> 2 ^ 32 \<le> default 123 (cli_seed c)
                  then ValueError
                  else AttributeError ''model'')
           \<and> filter is_step (events w') = filter is_step (events w)
           \<and> heap w' = heap w \<and> files w' = files w"
  unfolding main_objects_def
  by (simp add: int_attr_def str_attr_def getattr_def as_int_def as_str_def
      parse_args_attrs [OF assms] parse_args_world_size [OF assms]
      setup_group_def torch_manual_seed_def np_random_seed_def emit_def bnd_def lift_def
      ret_def raise_def Let_def)

text \<open>
  C3. For every namespace that \<^verbatim>\<open>parse_args\<close> returns, \<^verbatim>\<open>main\<close> raises before any
  training step: \<^verbatim>\<open>parse_args\<close> defines none of the attributes \<^verbatim>\<open>model\<close>,
  \<^verbatim>\<open>arch_depth\<close>, \<^verbatim>\<open>arch_width\<close> and \<^verbatim>\<open>arch_sk\<close> that lines 350 and 351 read for
  \<^verbatim>\<open>SimCLR.load\<close>, so once the two generators have accepted the seed the run ends with
  the \<^verbatim>\<open>AttributeError\<close> of \<^verbatim>\<open>args.model\<close> (a seed that a generator refuses ends it two
  lines earlier). No optimizer step has been taken, no module has been loaded or
  changed, and no file has been written.
\<close>

theorem main_fails_before_training:
  assumes "parse_args c = Inr args"
  shows "args ''model'' = None \<and> args ''arch_depth'' = None
     \<and> args ''arch_width'' = None \<and> args ''arch_sk'' = None
     \<and> (\<exists>seed. args ''seed'' = Some (VInt seed)
           \<and> fst (main env local_rank args w) =
                Inl (if seed < - (2 ^ 63) \<or> 2 ^ 64 \<le> seed
                     then RuntimeError ''Overflow when unpacking long''
                     else if seed < 0 \<or> 2 ^ 32 \<le> seed then ValueError
                     else AttributeError ''model''))
     \<and> filter is_step (events (snd (main env local_rank args w))) = filter is_step (events w)
     \<and> heap (snd (main env local_rank args w)) = heap w
     \<and> files (snd (main env local_rank args w)) = files w"
proof -
  from main_objects_fails [OF assms, of env local_rank w] obtain e w' where
    run: "main_objects env local_rank args w = (Inl e, w')"
    and e: "e = (if default 123 (cli_seed c) < - (2 ^ 63) \<or> 2 ^ 64 \<le> default 123 (cli_seed c)
                 then RuntimeError ''Overflow when unpacking long''
                 else if default 123 (cli_seed c) < 0 \<or> 2 ^ 32 \<le> default 123 (cli_seed c)
                 then ValueError
                 else AttributeError ''model'')"
    and frame: "filter is_step (events w') = filter is_step (events w)"
      "heap w' = heap w" "files w' = files w"
    by blast
  have m: "main env local_rank args w = (Inl e, w')"
    unfolding main_def using run by (simp add: bnd_def)
  have seed: "args ''seed'' = Some (VInt (default 123 (cli_seed c)))"
    by (rule parse_args_attrs [OF assms])
  have undefined: "args ''model'' = None" "args ''arch_depth'' = None"
    "args ''arch_width'' = None" "args ''arch_sk'' = None"
    by (rule parse_args_attrs [OF assms])+
  from seed e have "\<exists>seed. args ''seed'' = Some (VInt seed)
           \<and> fst (main env local_rank args w) =
                Inl (if seed < - (2 ^ 63) \<or> 2 ^ 64 \<le> seed
                     then RuntimeError ''Overflow when unpacking long''
                     else if seed < 0 \<or> 2 ^ 32 \<le> seed then ValueError
                     else AttributeError ''model'')"
    unfolding m by (intro exI [of _ "default 123 (cli_seed c)"]) simp
  with undefined frame show ?thesis
    unfolding m by simp
qed

theorem main_fails_before_training_witness:
  "\<exists>args. parse_args fixture_cli = Inr args
      \<and> args ''seed'' = Some (VInt 123)
      \<and> fst (main fixture_env 0 args fixture_world) = Inl (AttributeError ''model'')
      \<and> filter is_step (events (snd (main fixture_env 0 args fixture_world))) = []"
proof -
  obtain args where p: "parse_args fixture_cli = Inr args"
    using fixture_parse_args by blast
  have s: "args ''seed'' = Some (VInt 123)"
    using parse_args_attrs(5) [OF p] by (simp add: fixture_cli_def default_def)
  from main_fails_before_training [OF p, of fixture_env 0 fixture_world] s
  have "fst (main fixture_env 0 args fixture_world) = Inl (AttributeError ''model'')
        \<and> filter is_step (events (snd (main fixture_env 0 args fixture_world))) = []"
    by (auto simp: fixture_world_def)
  with p s show ?thesis by blast
qed

end
